theory Spec2Isabelle
  imports Main
begin

section \<open>Documents of the store\<close>

text \<open>
  A document of the collection \<^verbatim>\<open>phase1_submissions\<close>. The participant form writes the
  first twelve fields; \<^verbatim>\<open>points\<close>, \<^verbatim>\<open>review\<close> and \<^verbatim>\<open>reviewedAt\<close> are absent
  (\<open>None\<close>) until the admin dashboard scores the entry. Strings stand for the UTF-8 bytes of
  the JavaScript strings; timestamps are the ISO strings the code stores.
\<close>

record submission_doc =
  teamName :: string
  collegeName :: string
  whatsappNumber :: string
  productDescription :: string
  solution :: string
  fileUrl :: string
  youtubeLink :: string
  registrationId :: string
  userId :: string
  userName :: string
  submittedAt :: string
  updatedAt :: string
  points :: "int option"
  review :: "string option"
  reviewedAt :: "string option"

text \<open>
  What a rejected store or storage call throws: an \<^verbatim>\<open>Error\<close> the code itself raises with
  its message, or an error of the Firebase SDK with its code.
\<close>

datatype failure = Error string | FirebaseError string

text \<open>
  \<^verbatim>\<open>updateDoc(doc(db, collection, id), fields)\<close>: Firestore updates the fields of an existing
  document and fails with \<^verbatim>\<open>not-found\<close> when there is no document to update.
  \<^verbatim>\<open>setDoc\<close> without options replaces the document (or creates it).
\<close>

definition updateDoc :: "('k \<rightharpoonup> 'd) \<Rightarrow> 'k \<Rightarrow> ('d \<Rightarrow> 'd) \<Rightarrow> failure + ('k \<rightharpoonup> 'd)" where
  "updateDoc coll k upd =
     (case coll k of
        None \<Rightarrow> Inl (FirebaseError ''not-found'')
      | Some d \<Rightarrow> Inr (coll(k \<mapsto> upd d)))"

definition setDoc :: "('k \<rightharpoonup> 'd) \<Rightarrow> 'k \<Rightarrow> 'd \<Rightarrow> ('k \<rightharpoonup> 'd)" where
  "setDoc coll k d = coll(k \<mapsto> d)"

text \<open>
  The document \<^verbatim>\<open>config/phase1Results\<close>; \<^verbatim>\<open>published\<close> is read for its
  truthiness.
\<close>

record config_doc =
  published :: bool
  publishedAt :: "string option"

section \<open>Scoreboard: ranking\<close>

text \<open>
  \<^verbatim>\<open>TeamScore\<close> of Scoreboard.tsx: the document id, the document's own fields (the spread
  \<^verbatim>\<open>...doc.data()\<close>), and the two fields the scoreboard adds.
\<close>

record TeamScore =
  docId :: string
  doc :: submission_doc
  rank :: nat
  score :: int

text \<open>
  \<^verbatim>\<open>snapshot.docs.filter(doc => doc.data().points !== undefined).map(doc => ({id, ...doc.data(),
  rank, score: doc.data().points}))\<close> with \<^verbatim>\<open>let rank = 1\<close>: every entry starts at rank 1.
\<close>

definition scoresData :: "(string \<times> submission_doc) list \<Rightarrow> TeamScore list" where
  "scoresData docs =
     List.map_filter
       (\<lambda>(i, d). case points d of
            None \<Rightarrow> None
          | Some p \<Rightarrow> Some \<lparr>docId = i, doc = d, rank = 1, score = p\<rparr>)
       docs"

text \<open>
  The loop \<^verbatim>\<open>for (let i = 1; i < scoresData.length; i++)\<close>, which overwrites the rank of
  entry \<open>i\<close> in place.
\<close>

function assignRanks :: "nat \<Rightarrow> TeamScore list \<Rightarrow> TeamScore list" where
  "assignRanks i sd =
     (if i < length sd then
        assignRanks (i + 1)
          (sd[i := (sd ! i)\<lparr>rank :=
                 (if score (sd ! i) = score (sd ! (i - 1)) then rank (sd ! (i - 1)) else i + 1)\<rparr>])
      else sd)"
  by pat_completeness auto
termination
  by (relation "measure (\<lambda>(i, sd). length sd - i)") auto

declare assignRanks.simps [simp del]

text \<open>
  \<^verbatim>\<open>fetchScores\<close>: the scores the scoreboard holds afterwards (\<^verbatim>\<open>useState([])\<close> to
  start with), for the collection \<^verbatim>\<open>config\<close> and a snapshot of the query
  \<^verbatim>\<open>orderBy('points', 'desc')\<close> on the submissions. Nothing is fetched or ranked unless
  the results are published.
\<close>

definition fetchScores ::
  "(string \<rightharpoonup> config_doc) \<Rightarrow> (string \<times> submission_doc) list \<Rightarrow> TeamScore list" where
  "fetchScores config docs =
     (case config ''phase1Results'' of
        None \<Rightarrow> []
      | Some resultsConfig \<Rightarrow>
          if published resultsConfig then assignRanks 1 (scoresData docs) else [])"

section \<open>Admin dashboard: publishing the results\<close>

text \<open>
  \<^verbatim>\<open>publishResults\<close> of the admin dashboard, over the submissions the dashboard holds
  (\<^verbatim>\<open>fetchData\<close>) and the collection \<^verbatim>\<open>config\<close>. The result is what the
  \<^verbatim>\<open>try\<close> block ends with (\<open>Inl\<close>: the error the \<^verbatim>\<open>catch\<close> shows; \<open>Inr\<close>: the
  success banner) and the collection afterwards. Both branches of
  \<^verbatim>\<open>if (!configDoc.exists())\<close> call \<^verbatim>\<open>updateDoc\<close>, as in the source.
\<close>

definition publishResults ::
  "string \<Rightarrow> (string \<times> submission_doc) list \<Rightarrow> (string \<rightharpoonup> config_doc)
     \<Rightarrow> (failure + unit) \<times> (string \<rightharpoonup> config_doc)" where
  "publishResults now submissions config =
     (let unscored = filter (\<lambda>(i, sub). points sub = None) submissions in
      if length unscored > 0 then
        (Inl (Error ''All submissions must be scored before publishing results''), config)
      else
        (case (if config ''phase1Results'' = None
               then updateDoc config ''phase1Results''
                      (\<lambda>d. d\<lparr>published := True, publishedAt := Some now\<rparr>)
               else updateDoc config ''phase1Results''
                      (\<lambda>d. d\<lparr>published := True, publishedAt := Some now\<rparr>)) of
           Inl e \<Rightarrow> (Inl e, config)
         | Inr config' \<Rightarrow> (Inr (), config')))"

text \<open>\<^verbatim>\<open>handleScoreSubmit\<close>: the score, the review and the review time of one submission.\<close>

definition handleScoreSubmit ::
  "string \<Rightarrow> string \<Rightarrow> int \<Rightarrow> string \<Rightarrow> (string \<rightharpoonup> submission_doc)
     \<Rightarrow> (failure + unit) \<times> (string \<rightharpoonup> submission_doc)" where
  "handleScoreSubmit now submissionId pts txt subs =
     (case updateDoc subs submissionId
             (\<lambda>d. d\<lparr>points := Some pts, review := Some txt, reviewedAt := Some now\<rparr>) of
        Inl e \<Rightarrow> (Inl e, subs)
      | Inr subs' \<Rightarrow> (Inr (), subs'))"

section \<open>Teams, profiles and payments\<close>

text \<open>
  \<^verbatim>\<open>TeamMember\<close> of the user dashboard; the e-mail service reads the first three fields.
  A member is stored inside the untyped team document and edited through
  \<^verbatim>\<open>Partial<TeamMember>\<close>, so each field is \<open>None\<close> when the stored object does not hold it.
\<close>

record TeamMember =
  name :: "string option"
  email :: "string option"
  phone :: "string option"
  rollNumber :: "string option"
  department :: "string option"
  year :: "string option"

text \<open>
  A document of the collection \<^verbatim>\<open>teams\<close>. Firestore documents are untyped: a field is
  \<open>None\<close> when the document does not hold it, which the code reads as \<^verbatim>\<open>undefined\<close>
  (\<^verbatim>\<open>team.teamName?.toLowerCase()\<close>, \<^verbatim>\<open>team.members || []\<close>). \<^verbatim>\<open>phase2Selected\<close> is
  only tested for truthiness.
\<close>

record team_doc =
  team_teamName :: "string option"
  team_registrationId :: "string option"
  members :: "TeamMember list option"
  team_paymentStatus :: "string option"
  phase2Selected :: bool

text \<open>A document of \<^verbatim>\<open>users\<close> (only its \<^verbatim>\<open>email\<close> is read here) and a record of the
  collection \<^verbatim>\<open>payments\<close> (fields \<^verbatim>\<open>email\<close> and \<^verbatim>\<open>status\<close>).\<close>

record user_doc =
  user_email :: "string option"

record payment_doc =
  payment_email :: string
  payment_status :: string

text \<open>The signed-in principal the identity provider hands over.\<close>

record auth_user =
  uid :: string
  auth_email :: "string option"
  displayName :: "string option"

section \<open>App: role and payment status of the signed-in principal\<close>

datatype PaymentStatus = pending | paid

text \<open>
  The state of \<^verbatim>\<open>App\<close> that the handler of \<^verbatim>\<open>onAuthStateChanged\<close> decides on.
  \<^verbatim>\<open>paymentStatus\<close> starts as \<^verbatim>\<open>'pending'\<close> (\<^verbatim>\<open>useState\<close>) and is only ever changed by
  \<^verbatim>\<open>setPaymentStatus\<close>.
\<close>

record app_state =
  isAuthenticated :: bool
  isAdmin :: bool
  isFinanceAdmin :: bool
  paymentStatus :: PaymentStatus

definition initial_app_state :: app_state where
  "initial_app_state =
     \<lparr>isAuthenticated = False, isAdmin = False, isFinanceAdmin = False, paymentStatus = pending\<rparr>"

definition ADMIN_CREDENTIALS_email :: string where
  "ADMIN_CREDENTIALS_email = ''admin@edcrec.com''"

definition ADMIN_2_CREDENTIALS_email :: string where
  "ADMIN_2_CREDENTIALS_email = ''finance@edcrec.com''"

text \<open>JavaScript truthiness of a value that is a string or \<^verbatim>\<open>undefined\<close>/\<^verbatim>\<open>null\<close>.\<close>

definition truthy :: "string option \<Rightarrow> bool" where
  "truthy v = (case v of None \<Rightarrow> False | Some s \<Rightarrow> s \<noteq> [])"

text \<open>
  The query \<^verbatim>\<open>where('email', '==', userEmail), where('status', '==', 'paid')\<close> on the
  collection \<^verbatim>\<open>payments\<close>.
\<close>

definition paymentsQuery :: "string \<Rightarrow> payment_doc list \<Rightarrow> payment_doc list" where
  "paymentsQuery userEmail payments =
     filter (\<lambda>p. payment_email p = userEmail \<and> payment_status p = ''paid'') payments"

text \<open>
  The block \<^verbatim>\<open>// Check payment status\<close> of the handler: the payment status it leaves in the
  state, given the status before, and the e-mail addresses it queried the payment log for, in
  order. Where the code calls \<^verbatim>\<open>setPaymentStatus\<close> on no path, the status stays as it was.
\<close>

definition checkPaymentStatus ::
  "PaymentStatus \<Rightarrow> team_doc option \<Rightarrow> user_doc option \<Rightarrow> auth_user \<Rightarrow> payment_doc list
     \<Rightarrow> PaymentStatus \<times> string list" where
  "checkPaymentStatus prev teamDoc userDoc user payments =
     (case teamDoc of
        None \<Rightarrow> (prev, [])
      | Some teamData \<Rightarrow>
          if team_paymentStatus teamData = Some ''paid'' then (paid, [])
          else
            (let userEmail = (case userDoc of Some u \<Rightarrow> user_email u | None \<Rightarrow> auth_email user) in
             case userEmail of
               None \<Rightarrow> (prev, [])
             | Some e \<Rightarrow>
                 if truthy userEmail then
                   (if paymentsQuery e payments \<noteq> [] then (paid, [e]) else (pending, [e]))
                 else (prev, [])))"

text \<open>
  The handler itself, on the state above, with the collections \<^verbatim>\<open>teams\<close> and
  \<^verbatim>\<open>users\<close> keyed by user id, for reads that succeed. The second component lists the
  payment-log queries made. (The handler also sets \<^verbatim>\<open>currentUser\<close> and \<^verbatim>\<open>loading\<close>,
  which no payment decision reads.)
\<close>

definition onAuthStateChanged ::
  "app_state \<Rightarrow> auth_user option \<Rightarrow> (string \<rightharpoonup> team_doc) \<Rightarrow> (string \<rightharpoonup> user_doc)
     \<Rightarrow> payment_doc list \<Rightarrow> app_state \<times> string list" where
  "onAuthStateChanged st u teams users payments =
     (case u of
        None \<Rightarrow> (st\<lparr>isAuthenticated := False, isAdmin := False, isFinanceAdmin := False\<rparr>, [])
      | Some user \<Rightarrow>
          if auth_email user = Some ADMIN_CREDENTIALS_email then
            (st\<lparr>isAdmin := True, isFinanceAdmin := False, isAuthenticated := True\<rparr>, [])
          else if auth_email user = Some ADMIN_2_CREDENTIALS_email then
            (st\<lparr>isAdmin := False, isFinanceAdmin := True, isAuthenticated := True\<rparr>, [])
          else
            (let (ps, queried) =
                   checkPaymentStatus (paymentStatus st) (teams (uid user)) (users (uid user))
                     user payments
             in (st\<lparr>paymentStatus := ps, isAuthenticated := True, isAdmin := False,
                     isFinanceAdmin := False\<rparr>, queried)))"

text \<open>
  The resolution order as the specification words it, for comparison with the code: a paid
  Team record wins; otherwise the e-mail to check is the profile's stored e-mail, falling
  back to the principal's e-mail; a paid record of the payment log with that e-mail gives
  paid; everything else, a missing Team record included, gives pending.
\<close>

definition spec_emailToCheck :: "user_doc option \<Rightarrow> auth_user \<Rightarrow> string option" where
  "spec_emailToCheck userDoc user =
     (case (case userDoc of None \<Rightarrow> None | Some u \<Rightarrow> user_email u) of
        Some e \<Rightarrow> Some e
      | None \<Rightarrow> auth_email user)"

definition spec_paymentStatus ::
  "team_doc option \<Rightarrow> user_doc option \<Rightarrow> auth_user \<Rightarrow> payment_doc list \<Rightarrow> PaymentStatus" where
  "spec_paymentStatus teamDoc userDoc user payments =
     (case teamDoc of
        None \<Rightarrow> pending
      | Some teamData \<Rightarrow>
          if team_paymentStatus teamData = Some ''paid'' then paid
          else (case spec_emailToCheck userDoc user of
                  None \<Rightarrow> pending
                | Some e \<Rightarrow> if paymentsQuery e payments \<noteq> [] then paid else pending))"

section \<open>Phase 1 form: the submission lifecycle\<close>

text \<open>The calls a handler makes to object storage and to the document store, in order.\<close>

datatype call =
    UploadBytes string
  | GetDownloadURL string
  | SetDoc string string
  | UpdateDoc string string

text \<open>The calls that write a document.\<close>

definition isWrite :: "call \<Rightarrow> bool" where
  "isWrite c = (case c of SetDoc coll k \<Rightarrow> True | UpdateDoc coll k \<Rightarrow> True | _ \<Rightarrow> False)"

record formData =
  form_teamName :: string
  form_collegeName :: string
  form_whatsappNumber :: string
  form_productDescription :: string
  form_solution :: string
  form_fileUrl :: string
  form_youtubeLink :: string
  form_registrationId :: string

record File =
  file_name :: string
  file_type :: string

text \<open>
  The state of one mounted \<^verbatim>\<open>PhaseOneForm\<close>: the form fields, the chosen file and the
  flag \<^verbatim>\<open>isSubmitted\<close>. Each browser session that shows the form has a state of its own;
  the collection \<^verbatim>\<open>phase1_submissions\<close> is shared.
\<close>

record form_state =
  formData :: formData
  form_file :: "File option"
  isSubmitted :: bool

definition initial_form_state :: form_state where
  "initial_form_state =
     \<lparr>formData = \<lparr>form_teamName = [], form_collegeName = [], form_whatsappNumber = [],
          form_productDescription = [], form_solution = [], form_fileUrl = [],
          form_youtubeLink = [], form_registrationId = []\<rparr>,
      form_file = None, isSubmitted = False\<rparr>"

text \<open>\<^verbatim>\<open>value || ''\<close> for a string that may be absent.\<close>

definition orEmpty :: "string option \<Rightarrow> string" where
  "orEmpty v = (case v of None \<Rightarrow> [] | Some s \<Rightarrow> s)"

text \<open>
  \<^verbatim>\<open>loadSubmissionData\<close> when its reads succeed: team name and registration id come from
  the team document; an existing submission overwrites the form fields it holds and sets
  \<^verbatim>\<open>isSubmitted\<close>. (The results and the REC student details it also loads are not part of
  this state.)
\<close>

definition loadSubmissionData ::
  "string \<Rightarrow> (string \<rightharpoonup> team_doc) \<Rightarrow> (string \<rightharpoonup> submission_doc) \<Rightarrow> form_state \<Rightarrow> form_state" where
  "loadSubmissionData user_id teams subs st =
     (let st1 = (case teams user_id of
                   None \<Rightarrow> st
                 | Some teamData \<Rightarrow>
                     st\<lparr>formData := (formData st)
                          \<lparr>form_teamName := orEmpty (team_teamName teamData),
                           form_registrationId := orEmpty (team_registrationId teamData)\<rparr>\<rparr>)
      in case subs user_id of
           None \<Rightarrow> st1
         | Some data \<Rightarrow>
             st1\<lparr>formData :=
                   \<lparr>form_teamName = teamName data, form_collegeName = collegeName data,
                    form_whatsappNumber = whatsappNumber data,
                    form_productDescription = productDescription data,
                    form_solution = solution data, form_fileUrl = fileUrl data,
                    form_youtubeLink = youtubeLink data,
                    form_registrationId = registrationId data\<rparr>,
                 isSubmitted := True\<rparr>)"

text \<open>
  The \<^verbatim>\<open>onChange\<close> handlers of the editable inputs: every one but the YouTube link is
  guarded by \<^verbatim>\<open>!isSubmitted &&\<close>.
\<close>

datatype form_field = CollegeName | WhatsappNumber | ProductDescription | Solution | YoutubeLink

definition onChange :: "form_field \<Rightarrow> string \<Rightarrow> form_state \<Rightarrow> form_state" where
  "onChange field v st =
     (case field of
        YoutubeLink \<Rightarrow> st\<lparr>formData := (formData st)\<lparr>form_youtubeLink := v\<rparr>\<rparr>
      | CollegeName \<Rightarrow>
          if \<not> isSubmitted st then st\<lparr>formData := (formData st)\<lparr>form_collegeName := v\<rparr>\<rparr> else st
      | WhatsappNumber \<Rightarrow>
          if \<not> isSubmitted st then st\<lparr>formData := (formData st)\<lparr>form_whatsappNumber := v\<rparr>\<rparr> else st
      | ProductDescription \<Rightarrow>
          if \<not> isSubmitted st then st\<lparr>formData := (formData st)\<lparr>form_productDescription := v\<rparr>\<rparr>
          else st
      | Solution \<Rightarrow>
          if \<not> isSubmitted st then st\<lparr>formData := (formData st)\<lparr>form_solution := v\<rparr>\<rparr> else st)"

definition handleFileChange :: "File option \<Rightarrow> form_state \<Rightarrow> (failure + unit) \<times> form_state" where
  "handleFileChange selected st =
     (if isSubmitted st then
        (Inl (Error ''You cannot modify your submission after initial submission''), st)
      else
        (case selected of
           None \<Rightarrow> (Inr (), st)
         | Some selectedFile \<Rightarrow>
             if file_type selectedFile \<noteq>
                  ''application/vnd.openxmlformats-officedocument.presentationml.presentation''
             then (Inl (Error ''Please upload a PowerPoint file (.pptx)''), st)
             else (Inr (), st\<lparr>form_file := Some selectedFile\<rparr>)))"

text \<open>
  \<^verbatim>\<open>handleSubmit\<close> of the form of user \<open>user_id\<close> (the props \<^verbatim>\<open>userId\<close> and
  \<^verbatim>\<open>userName\<close>). Object storage is the collaborator \<open>uploadBytes\<close> (for a path:
  \<open>None\<close> when the upload succeeds, the error it rejects with otherwise) and
  \<open>getDownloadURL\<close> (the URL, or the error); the writes to the document store succeed
  unless \<^verbatim>\<open>updateDoc\<close> finds no document. The result is how the \<^verbatim>\<open>try\<close> block ends,
  the form state, the collection and the calls made, in order. \<open>now\<close> is the reading of
  the clock (\<^verbatim>\<open>new Date().toISOString()\<close>).
\<close>

definition handleSubmit ::
  "string \<Rightarrow> string \<Rightarrow> string \<Rightarrow> (string \<Rightarrow> failure option) \<Rightarrow> (string \<Rightarrow> failure + string)
     \<Rightarrow> form_state \<Rightarrow> (string \<rightharpoonup> submission_doc)
     \<Rightarrow> (failure + unit) \<times> form_state \<times> (string \<rightharpoonup> submission_doc) \<times> call list" where
  "handleSubmit user_id user_name now uploadBytes getDownloadURL st subs =
     (let fd = formData st in
      if isSubmitted st then
        (if form_youtubeLink fd = [] then
           (Inl (Error ''Please provide a YouTube video link''), st, subs, [])
         else
           (case updateDoc subs user_id
                   (\<lambda>d. d\<lparr>youtubeLink := form_youtubeLink fd, updatedAt := now\<rparr>) of
              Inl e \<Rightarrow> (Inl e, st, subs, [UpdateDoc ''phase1_submissions'' user_id])
            | Inr subs' \<Rightarrow> (Inr (), st, subs', [UpdateDoc ''phase1_submissions'' user_id])))
      else if form_collegeName fd = [] \<or> form_whatsappNumber fd = [] \<or>
              form_productDescription fd = [] \<or> form_solution fd = [] then
        (Inl (Error ''Please fill in all required fields''), st, subs, [])
      else
        (case form_file st of
           None \<Rightarrow> (Inl (Error ''Please upload your presentation file''), st, subs, [])
         | Some f \<Rightarrow>
             (let path = ''presentations/'' @ user_id @ ''_'' @ file_name f in
              case uploadBytes path of
                Some e \<Rightarrow> (Inl e, st, subs, [UploadBytes path])
              | None \<Rightarrow>
                  (case getDownloadURL path of
                     Inl e \<Rightarrow> (Inl e, st, subs, [UploadBytes path, GetDownloadURL path])
                   | Inr url \<Rightarrow>
                       (Inr (), st\<lparr>isSubmitted := True\<rparr>,
                        setDoc subs user_id
                          \<lparr>teamName = form_teamName fd, collegeName = form_collegeName fd,
                           whatsappNumber = form_whatsappNumber fd,
                           productDescription = form_productDescription fd,
                           solution = form_solution fd, fileUrl = url,
                           youtubeLink = form_youtubeLink fd,
                           registrationId = form_registrationId fd,
                           userId = user_id, userName = user_name, submittedAt = now,
                           updatedAt = now,
                           points = None, review = None, reviewedAt = None\<rparr>,
                        [UploadBytes path, GetDownloadURL path,
                         SetDoc ''phase1_submissions'' user_id])))))"

section \<open>User dashboard: team members, phase 2 and the countdown\<close>

text \<open>\<^verbatim>\<open>{ ...member, ...data }\<close>: a field of \<open>data\<close> that is present overrides the member's.\<close>

definition spread :: "string option \<Rightarrow> string option \<Rightarrow> string option" where
  "spread old new = (case new of None \<Rightarrow> old | Some v \<Rightarrow> Some v)"

definition mergeMember :: "TeamMember \<Rightarrow> TeamMember \<Rightarrow> TeamMember" where
  "mergeMember member data =
     \<lparr>name = spread (name member) (name data), email = spread (email member) (email data),
      phone = spread (phone member) (phone data),
      rollNumber = spread (rollNumber member) (rollNumber data),
      department = spread (department member) (department data),
      year = spread (year member) (year data)\<rparr>"

definition noMember :: TeamMember where
  "noMember = \<lparr>name = None, email = None, phone = None, rollNumber = None,
                department = None, year = None\<rparr>"

text \<open>
  \<^verbatim>\<open>handleMemberUpdate\<close> of the dashboard of user \<open>user_id\<close>, on the member list the
  dashboard holds and the collection \<^verbatim>\<open>teams\<close>. The write is
  \<^verbatim>\<open>setDoc(doc(db, 'teams', userId), { members: updatedMembers })\<close>, with no merge option:
  the stored document becomes the object that holds \<^verbatim>\<open>members\<close> alone.
  An index equal to the length appends \<^verbatim>\<open>{ ...undefined, ...data }\<close>; a larger one leaves
  holes in the array, which Firestore rejects as \<^verbatim>\<open>undefined\<close> values (the list of the
  model then stays as it was, a list having no holes).
\<close>

definition handleMemberUpdate ::
  "string \<Rightarrow> nat \<Rightarrow> TeamMember \<Rightarrow> TeamMember list \<Rightarrow> (string \<rightharpoonup> team_doc)
     \<Rightarrow> (failure + unit) \<times> TeamMember list \<times> (string \<rightharpoonup> team_doc)" where
  "handleMemberUpdate user_id index data teamMembers teams =
     (if index \<le> length teamMembers then
        (let updatedMembers =
               (if index < length teamMembers
                then teamMembers[index := mergeMember (teamMembers ! index) data]
                else teamMembers @ [mergeMember noMember data])
         in (Inr (), updatedMembers,
             setDoc teams user_id
               \<lparr>team_teamName = None, team_registrationId = None,
                members = Some updatedMembers, team_paymentStatus = None,
                phase2Selected = False\<rparr>))
      else (Inl (FirebaseError ''invalid-argument''), teamMembers, teams))"

text \<open>A document of \<^verbatim>\<open>phase2_submissions\<close>.\<close>

record phase2_doc =
  proposalUrl :: "string option"
  youtubeVideoUrl :: "string option"
  phase2_submittedAt :: "string option"
  status :: "string option"

text \<open>\<^verbatim>\<open>setDoc(ref, fields, { merge: true })\<close>: the fields are laid over the document that
  is there, or over an empty one.\<close>

definition setDocMerge :: "('k \<rightharpoonup> 'd) \<Rightarrow> 'k \<Rightarrow> 'd \<Rightarrow> ('d \<Rightarrow> 'd) \<Rightarrow> ('k \<rightharpoonup> 'd)" where
  "setDocMerge coll k emptyDoc upd =
     coll(k \<mapsto> upd (case coll k of None \<Rightarrow> emptyDoc | Some d \<Rightarrow> d))"

text \<open>
  \<^verbatim>\<open>handleProposalUpload\<close>: nothing happens without a chosen file; otherwise the file is
  uploaded, its URL fetched and the phase-2 document written, in this order, the first
  rejection ending the \<^verbatim>\<open>try\<close> block.
\<close>

definition handleProposalUpload ::
  "string \<Rightarrow> string \<Rightarrow> (string \<Rightarrow> failure option) \<Rightarrow> (string \<Rightarrow> failure + string)
     \<Rightarrow> File option \<Rightarrow> string \<Rightarrow> (string \<rightharpoonup> phase2_doc)
     \<Rightarrow> (failure + unit) \<times> (string \<rightharpoonup> phase2_doc) \<times> call list" where
  "handleProposalUpload user_id now uploadBytes getDownloadURL businessProposal videoUrl subs2 =
     (case businessProposal of
        None \<Rightarrow> (Inr (), subs2, [])
      | Some f \<Rightarrow>
          (let path = ''proposals/'' @ user_id @ ''_'' @ file_name f in
           case uploadBytes path of
             Some e \<Rightarrow> (Inl e, subs2, [UploadBytes path])
           | None \<Rightarrow>
               (case getDownloadURL path of
                  Inl e \<Rightarrow> (Inl e, subs2, [UploadBytes path, GetDownloadURL path])
                | Inr url \<Rightarrow>
                    (Inr (),
                     setDocMerge subs2 user_id
                       \<lparr>proposalUrl = None, youtubeVideoUrl = None, phase2_submittedAt = None,
                        status = None\<rparr>
                       (\<lambda>d. d\<lparr>proposalUrl := Some url, youtubeVideoUrl := Some videoUrl,
                              phase2_submittedAt := Some now, status := Some ''pending''\<rparr>),
                     [UploadBytes path, GetDownloadURL path,
                      SetDoc ''phase2_submissions'' user_id]))))"

text \<open>Decimal digits of a natural number, as a template literal prints a number.\<close>

fun decimal :: "nat \<Rightarrow> string" where
  "decimal n =
     (if n < 10 then [char_of (48 + n)] else decimal (n div 10) @ [char_of (48 + n mod 10)])"

declare decimal.simps [simp del]

definition showInt :: "int \<Rightarrow> string" where
  "showInt i = (if i < 0 then CHR ''-'' # decimal (nat (- i)) else decimal (nat i))"

text \<open>
  One tick of \<^verbatim>\<open>startCountdown\<close>: the text it hands to \<^verbatim>\<open>setTimeRemaining\<close>, for the
  deadline and the clock reading in milliseconds. \<^verbatim>\<open>Math.floor\<close> of a quotient of
  integers is \<open>div\<close>, and \<^verbatim>\<open>%\<close> of a positive number by a positive number is \<open>mod\<close>.
\<close>

definition countdown :: "int \<Rightarrow> int \<Rightarrow> string" where
  "countdown phase2Deadline now =
     (let distance = phase2Deadline - now in
      if distance \<le> 0 then ''Submission Closed''
      else
        (let days = distance div (1000 * 60 * 60 * 24);
             hours = (distance mod (1000 * 60 * 60 * 24)) div (1000 * 60 * 60);
             minutes = (distance mod (1000 * 60 * 60)) div (1000 * 60);
             seconds = (distance mod (1000 * 60)) div 1000
         in showInt days @ ''d '' @ showInt hours @ ''h '' @ showInt minutes @ ''m '' @
            showInt seconds @ ''s''))"

definition isSubmissionClosed :: "int \<Rightarrow> int \<Rightarrow> bool" where
  "isSubmissionClosed phase2Deadline now = (now > phase2Deadline)"

text \<open>
  The three phase-2 controls: the URL input and the file chooser carry
  \<^verbatim>\<open>disabled={isSubmissionClosed()}\<close>, the upload button
  \<^verbatim>\<open>disabled={loading || isSubmissionClosed()}\<close>. A disabled control does nothing; an enabled
  upload button runs \<^verbatim>\<open>handleProposalUpload\<close>.
\<close>

definition urlInputDisabled :: "int \<Rightarrow> int \<Rightarrow> bool" where
  "urlInputDisabled phase2Deadline now = isSubmissionClosed phase2Deadline now"

definition fileInputDisabled :: "int \<Rightarrow> int \<Rightarrow> bool" where
  "fileInputDisabled phase2Deadline now = isSubmissionClosed phase2Deadline now"

definition uploadButtonDisabled :: "bool \<Rightarrow> int \<Rightarrow> int \<Rightarrow> bool" where
  "uploadButtonDisabled loading phase2Deadline now =
     (loading \<or> isSubmissionClosed phase2Deadline now)"

section \<open>E-mail service: tickets and invitations\<close>

subsection \<open>\<^verbatim>\<open>JSON.stringify\<close> of an object of strings\<close>

definition hexDigit :: "nat \<Rightarrow> char" where
  "hexDigit n = (if n < 10 then char_of (48 + n) else char_of (87 + n))"

text \<open>\<^verbatim>\<open>\uXXXX\<close> with four lower-case hexadecimal digits (UnicodeEscape of ECMA-262).\<close>

definition unicodeEscape :: "char \<Rightarrow> string" where
  "unicodeEscape c =
     (let n = (of_char c :: nat) in
      [CHR 0x5C, CHR ''u'', hexDigit (n div 4096 mod 16), hexDigit (n div 256 mod 16),
       hexDigit (n div 16 mod 16), hexDigit (n mod 16)])"

text \<open>
  One character of QuoteJSONString: the seven characters with a short escape, the other
  control characters as \<^verbatim>\<open>\u00XX\<close>, everything else as it is. (The bytes of a character
  beyond ASCII are not below \<open>0x20\<close> and stay as they are; a lone surrogate, which
  QuoteJSONString escapes too, has no UTF-8 bytes and is not a string of this model.)
\<close>

definition quoteChar :: "char \<Rightarrow> string" where
  "quoteChar c =
     (if c = CHR 0x08 then [CHR 0x5C, CHR ''b'']
      else if c = CHR 0x09 then [CHR 0x5C, CHR ''t'']
      else if c = CHR 0x0A then [CHR 0x5C, CHR ''n'']
      else if c = CHR 0x0C then [CHR 0x5C, CHR ''f'']
      else if c = CHR 0x0D then [CHR 0x5C, CHR ''r'']
      else if c = CHR 0x22 then [CHR 0x5C, CHR 0x22]
      else if c = CHR 0x5C then [CHR 0x5C, CHR 0x5C]
      else if (of_char c :: nat) < 32 then unicodeEscape c
      else [c])"

definition QuoteJSONString :: "string \<Rightarrow> string" where
  "QuoteJSONString s = CHR 0x22 # concat (map quoteChar s) @ [CHR 0x22]"

fun joinWith :: "string \<Rightarrow> string list \<Rightarrow> string" where
  "joinWith sep [] = []"
| "joinWith sep [x] = x"
| "joinWith sep (x # y # ys) = x @ sep @ joinWith sep (y # ys)"

text \<open>
  SerializeJSONObject without indentation: a property whose value is \<^verbatim>\<open>undefined\<close> is left
  out; the others are \<^verbatim>\<open>"key":"value"\<close>, separated by commas, in the object's order.
\<close>

definition stringifyObject :: "(string \<times> string option) list \<Rightarrow> string" where
  "stringifyObject props =
     ''{'' @
     joinWith '',''
       (List.map_filter
          (\<lambda>(k, v). case v of
               None \<Rightarrow> None
             | Some x \<Rightarrow> Some (QuoteJSONString k @ '':'' @ QuoteJSONString x))
          props) @
     ''}''"

text \<open>One property as \<^verbatim>\<open>stringifyObject\<close> writes it, for the proofs about the payload.\<close>

definition renderMember :: "string \<times> string \<Rightarrow> string" where
  "renderMember kv = QuoteJSONString (fst kv) @ '':'' @ QuoteJSONString (snd kv)"

subsection \<open>The ticket\<close>

record eventDetails =
  event_date :: string
  event_venue :: string
  workshopTitle :: "string option"

text \<open>
  \<^verbatim>\<open>ETicketData\<close>. Team name and registration id come from a team document and are
  \<open>None\<close> when it does not hold them.
\<close>

record ETicketData =
  ticket_teamName :: "string option"
  ticket_registrationId :: "string option"
  member :: TeamMember
  eventDetails :: eventDetails

text \<open>The payload of the scannable code: \<^verbatim>\<open>JSON.stringify({regId, name, team})\<close>.\<close>

definition qrData :: "ETicketData \<Rightarrow> string" where
  "qrData d =
     stringifyObject
       [(''regId'', ticket_registrationId d), (''name'', name (member d)),
        (''team'', ticket_teamName d)]"

text \<open>A value inside a template literal: \<^verbatim>\<open>undefined\<close> prints as that word.\<close>

definition templ :: "string option \<Rightarrow> string" where
  "templ v = (case v of None \<Rightarrow> ''undefined'' | Some s \<Rightarrow> s)"

text \<open>The one-page document: the image of the code and the lines of text, top to bottom.\<close>

record pdf =
  pdf_image :: string
  pdf_text :: "string list"

text \<open>
  \<^verbatim>\<open>generateETicket\<close>. \<open>toDataURL\<close> is \<^verbatim>\<open>QRCode.toDataURL\<close>: the image of a payload, or
  the error it rejects with (a payload beyond the capacity of the code).
\<close>

definition generateETicket :: "(string \<Rightarrow> failure + string) \<Rightarrow> ETicketData \<Rightarrow> failure + pdf" where
  "generateETicket toDataURL d =
     (case toDataURL (qrData d) of
        Inl e \<Rightarrow> Inl e
      | Inr qrCode \<Rightarrow>
          Inr \<lparr>pdf_image = qrCode,
               pdf_text =
                 [''STARTUP SPARK 2025'', ''E-Ticket'',
                  ''Team: '' @ templ (ticket_teamName d),
                  ''Registration ID: '' @ templ (ticket_registrationId d),
                  ''Name: '' @ templ (name (member d)),
                  ''Email: '' @ templ (email (member d)),
                  ''Phone: '' @ templ (phone (member d)),
                  ''Event Details:'',
                  ''Date: '' @ event_date (eventDetails d),
                  ''Venue: '' @ event_venue (eventDetails d)] @
                 (if truthy (workshopTitle (eventDetails d))
                  then [''Workshop: '' @ templ (workshopTitle (eventDetails d))] else [])\<rparr>)"

subsection \<open>Sending\<close>

text \<open>
  The HTML body of the workshop invitation is the fixed template with four holes: the member's
  name, the workshop title, its date and its venue.
\<close>

datatype mail_body = WorkshopInvitation string string string string

record mail =
  mail_to :: "string option"
  mail_subject :: string
  mail_html :: mail_body
  mail_attachments :: "(string \<times> pdf) list"

text \<open>
  \<^verbatim>\<open>sendEmail\<close>: \<open>sendMail\<close> is the transport (\<open>True\<close> when it delivers the message,
  \<open>False\<close> when it rejects); the rejection is caught and turned into \<^verbatim>\<open>false\<close>.
\<close>

definition sendEmail :: "(mail \<Rightarrow> bool) \<Rightarrow> mail \<Rightarrow> bool" where
  "sendEmail sendMail m = (if sendMail m then True else False)"

record workshopDetails =
  title :: string
  date :: string
  venue :: string

text \<open>The object \<^verbatim>\<open>eTicketData\<close> that \<^verbatim>\<open>sendWorkshopInvite\<close> builds for one member.\<close>

definition eTicketData :: "team_doc \<Rightarrow> workshopDetails \<Rightarrow> TeamMember \<Rightarrow> ETicketData" where
  "eTicketData teamData details m =
     \<lparr>ticket_teamName = team_teamName teamData,
      ticket_registrationId = team_registrationId teamData,
      member = m,
      eventDetails = \<lparr>event_date = date details, event_venue = venue details,
                      workshopTitle = Some (title details)\<rparr>\<rparr>"

text \<open>Whether \<^verbatim>\<open>generateETicket\<close> resolves for a member, for stating how far the loop gets.\<close>

definition ticketGenerated ::
  "(string \<Rightarrow> failure + string) \<Rightarrow> team_doc \<Rightarrow> workshopDetails \<Rightarrow> TeamMember \<Rightarrow> bool" where
  "ticketGenerated toDataURL teamData details m =
     (case generateETicket toDataURL (eTicketData teamData details m) of
        Inl e \<Rightarrow> False
      | Inr eTicketPdf \<Rightarrow> True)"

text \<open>
  The body of the loop \<^verbatim>\<open>for (const member of teamData.members)\<close> of
  \<^verbatim>\<open>sendWorkshopInvite\<close>, over the members still to come. The result of
  \<^verbatim>\<open>await sendEmail(...)\<close> is not looked at. A rejection of \<^verbatim>\<open>generateETicket\<close> leaves the
  loop. The second component lists the messages handed to \<^verbatim>\<open>sendEmail\<close>, each with what
  \<^verbatim>\<open>sendEmail\<close> returned.
\<close>

fun inviteMembers ::
  "(string \<Rightarrow> failure + string) \<Rightarrow> (mail \<Rightarrow> bool) \<Rightarrow> team_doc \<Rightarrow> workshopDetails
     \<Rightarrow> TeamMember list \<Rightarrow> (failure + unit) \<times> (mail \<times> bool) list" where
  "inviteMembers toDataURL sendMail teamData details [] = (Inr (), [])"
| "inviteMembers toDataURL sendMail teamData details (m # ms) =
     (case generateETicket toDataURL (eTicketData teamData details m) of
        Inl e \<Rightarrow> (Inl e, [])
      | Inr eTicketPdf \<Rightarrow>
          (let msg = \<lparr>mail_to = email m,
                      mail_subject = ''Workshop Invitation: '' @ title details,
                      mail_html = WorkshopInvitation (templ (name m)) (title details)
                                    (date details) (venue details),
                      mail_attachments = [(''e-ticket.pdf'', eTicketPdf)]\<rparr>;
               sent = sendEmail sendMail msg;
               (r, rest) = inviteMembers toDataURL sendMail teamData details ms
           in (r, (msg, sent) # rest)))"

text \<open>
  \<^verbatim>\<open>sendWorkshopInvite\<close>: \<^verbatim>\<open>true\<close> when the loop ran to its end, \<^verbatim>\<open>false\<close> when
  something was thrown inside the \<^verbatim>\<open>try\<close> block (a team document without
  \<^verbatim>\<open>members\<close> is not iterable).
\<close>

definition sendWorkshopInvite ::
  "(string \<Rightarrow> failure + string) \<Rightarrow> (mail \<Rightarrow> bool) \<Rightarrow> team_doc \<Rightarrow> workshopDetails
     \<Rightarrow> bool \<times> (mail \<times> bool) list" where
  "sendWorkshopInvite toDataURL sendMail teamData details =
     (case members teamData of
        None \<Rightarrow> (False, [])
      | Some ms \<Rightarrow>
          (case inviteMembers toDataURL sendMail teamData details ms of
             (Inl e, sent) \<Rightarrow> (False, sent)
           | (Inr u, sent) \<Rightarrow> (True, sent)))"

section \<open>E-mail dashboard: the team list and the batch\<close>

fun startsWith :: "string \<Rightarrow> string \<Rightarrow> bool" where
  "startsWith s [] = True"
| "startsWith [] (c # cs) = False"
| "startsWith (x # xs) (c # cs) = (x = c \<and> startsWith xs cs)"

text \<open>\<^verbatim>\<open>String.prototype.includes\<close>: the search string occurs somewhere in the string.\<close>

fun includes_str :: "string \<Rightarrow> string \<Rightarrow> bool" where
  "includes_str [] search = (search = [])"
| "includes_str (x # xs) search = (startsWith (x # xs) search \<or> includes_str xs search)"

datatype filterStatus = FilterAll | FilterSelected | FilterPending

text \<open>
  The list \<^verbatim>\<open>teamsData\<close> that \<^verbatim>\<open>fetchTeams\<close> builds from a snapshot of the collection
  \<^verbatim>\<open>teams\<close> (document id and data) and the search term and status filter it runs
  under: the snapshot, then the teams of it that pass the search, then the teams of those
  that pass the status filter. \<open>toLowerCase\<close> is the platform's \<^verbatim>\<open>String.prototype.toLowerCase\<close>, whose Unicode
  case tables are not part of the repository.
\<close>

definition teamsData ::
  "(string \<Rightarrow> string) \<Rightarrow> string \<Rightarrow> filterStatus \<Rightarrow> (string \<times> team_doc) list
     \<Rightarrow> (string \<times> team_doc) list" where
  "teamsData toLowerCase term fStatus snapshot =
     (let fetched = snapshot;
          searched =
            (if term \<noteq> [] then
               filter
                 (\<lambda>(i, team).
                    (case team_teamName team of
                       None \<Rightarrow> False
                     | Some n \<Rightarrow> includes_str (toLowerCase n) (toLowerCase term)) \<or>
                    (case team_registrationId team of
                       None \<Rightarrow> False
                     | Some r \<Rightarrow> includes_str (toLowerCase r) (toLowerCase term)))
                 fetched
             else fetched);
          filtered =
            (if fStatus \<noteq> FilterAll then
               filter
                 (\<lambda>(i, team).
                    if fStatus = FilterSelected then phase2Selected team
                    else \<not> phase2Selected team)
                 searched
             else searched)
      in filtered)"

text \<open>
  The two tests of \<^verbatim>\<open>fetchTeams\<close> on their own, for stating what the fetched list holds:
  a team passes the search when no term is set or the term occurs, case-insensitively, in
  its name or its registration id; it passes the status filter \<^verbatim>\<open>all\<close> always,
  \<^verbatim>\<open>selected\<close> when it is selected for phase 2 and \<^verbatim>\<open>pending\<close> when it is not.
\<close>

definition matchesSearch :: "(string \<Rightarrow> string) \<Rightarrow> string \<Rightarrow> team_doc \<Rightarrow> bool" where
  "matchesSearch toLowerCase term team =
     (term = [] \<or>
      (case team_teamName team of
         None \<Rightarrow> False
       | Some n \<Rightarrow> includes_str (toLowerCase n) (toLowerCase term)) \<or>
      (case team_registrationId team of
         None \<Rightarrow> False
       | Some r \<Rightarrow> includes_str (toLowerCase r) (toLowerCase term)))"

definition matchesStatus :: "filterStatus \<Rightarrow> team_doc \<Rightarrow> bool" where
  "matchesStatus fStatus team =
     (case fStatus of
        FilterAll \<Rightarrow> True
      | FilterSelected \<Rightarrow> phase2Selected team
      | FilterPending \<Rightarrow> \<not> phase2Selected team)"

text \<open>
  The dashboard's state: the list of teams it holds (and shows), the search term, the
  status filter and the workshop details.
\<close>

record dashboard_state =
  teams :: "(string \<times> team_doc) list"
  searchTerm :: string
  filterStatus :: filterStatus
  details :: workshopDetails

text \<open>
  The search box and the filter buttons change the term and the filter at once, and
  nothing else. The effect \<^verbatim>\<open>useEffect(() => { fetchTeams() }, [searchTerm,
  filterStatus])\<close> then starts \<^verbatim>\<open>fetchTeams\<close>, which is asynchronous.
\<close>

definition setSearchTerm :: "string \<Rightarrow> dashboard_state \<Rightarrow> dashboard_state" where
  "setSearchTerm v st = st\<lparr>searchTerm := v\<rparr>"

definition setFilterStatus :: "filterStatus \<Rightarrow> dashboard_state \<Rightarrow> dashboard_state" where
  "setFilterStatus v st = st\<lparr>filterStatus := v\<rparr>"

text \<open>
  \<^verbatim>\<open>fetchTeams\<close>, at the moment \<^verbatim>\<open>getDocs\<close> settles. \<open>term\<close> and \<open>fStatus\<close> are the
  search term and the filter of the render that started this fetch (the values the
  function closed over); \<open>result\<close> is the snapshot, or the error \<^verbatim>\<open>getDocs\<close> rejected
  with; \<open>st\<close> is the dashboard's state at that moment. A snapshot replaces the list; a
  rejection is caught (an error message is shown) and the list stays as it was.
\<close>

definition fetchTeams ::
  "(string \<Rightarrow> string) \<Rightarrow> string \<Rightarrow> filterStatus \<Rightarrow> failure + (string \<times> team_doc) list
     \<Rightarrow> dashboard_state \<Rightarrow> dashboard_state" where
  "fetchTeams toLowerCase term fStatus result st =
     (case result of
        Inl e \<Rightarrow> st
      | Inr snapshot \<Rightarrow> st\<lparr>teams := teamsData toLowerCase term fStatus snapshot\<rparr>)"

text \<open>
  The loop \<^verbatim>\<open>for (const team of teams)\<close> of \<^verbatim>\<open>handleSendWorkshopInvites\<close>, with its two
  counters. The log lists, for each team the loop reached, the team, what
  \<^verbatim>\<open>sendWorkshopInvite\<close> returned and the messages it handed to \<^verbatim>\<open>sendEmail\<close>.
\<close>

record counts =
  successCount :: nat
  failCount :: nat

fun inviteTeams ::
  "(string \<Rightarrow> failure + string) \<Rightarrow> (mail \<Rightarrow> bool) \<Rightarrow> workshopDetails \<Rightarrow> counts
     \<Rightarrow> (string \<times> team_doc) list
     \<Rightarrow> counts \<times> ((string \<times> team_doc) \<times> bool \<times> (mail \<times> bool) list) list" where
  "inviteTeams toDataURL sendMail wd c [] = (c, [])"
| "inviteTeams toDataURL sendMail wd c (team # rest) =
     (let (success, sent) = sendWorkshopInvite toDataURL sendMail (snd team) wd;
          c' = (if success then c\<lparr>successCount := successCount c + 1\<rparr>
                else c\<lparr>failCount := failCount c + 1\<rparr>);
          (c'', log) = inviteTeams toDataURL sendMail wd c' rest
      in (c'', (team, success, sent) # log))"

text \<open>
  \<^verbatim>\<open>handleSendWorkshopInvites\<close>: \<open>Inl\<close> is the error it shows, \<open>Inr\<close> the two counters the
  success message reports.
\<close>

definition handleSendWorkshopInvites ::
  "(string \<Rightarrow> failure + string) \<Rightarrow> (mail \<Rightarrow> bool) \<Rightarrow> dashboard_state
     \<Rightarrow> (failure + counts) \<times> ((string \<times> team_doc) \<times> bool \<times> (mail \<times> bool) list) list" where
  "handleSendWorkshopInvites toDataURL sendMail st =
     (if title (details st) = [] \<or> date (details st) = [] \<or> venue (details st) = [] then
        (Inl (Error ''Please fill in all workshop details''), [])
      else
        (let (c, log) =
               inviteTeams toDataURL sendMail (details st)
                 \<lparr>successCount = 0, failCount = 0\<rparr> (teams st)
         in (Inr c, log)))"

text \<open>The success message: \<^verbatim>\<open>Successfully sent N invites\<close>, and \<^verbatim>\<open>, M failed\<close> when \<open>M > 0\<close>.\<close>

definition successMessage :: "counts \<Rightarrow> string" where
  "successMessage c =
     ''Successfully sent '' @ decimal (successCount c) @ '' invites'' @
     (if failCount c > 0 then '', '' @ decimal (failCount c) @ '' failed'' else [])"

section \<open>Reading a ticket's code\<close>

text \<open>
  Modelled from the spec: the repository has no reader of the scannable code; the
  specification only asks that the payload round-trips. The reader below is the JSON grammar
  for an object of string members, as \<^verbatim>\<open>JSON.parse\<close> reads it, followed by the three
  property reads \<^verbatim>\<open>.regId\<close>, \<^verbatim>\<open>.name\<close>, \<^verbatim>\<open>.team\<close>. A \<^verbatim>\<open>\uXXXX\<close> escape is
  read when it stands for an ASCII character, which is all \<^verbatim>\<open>JSON.stringify\<close> writes.
\<close>

definition hexValue :: "char \<Rightarrow> nat option" where
  "hexValue c =
     (let n = (of_char c :: nat) in
      if 48 \<le> n \<and> n \<le> 57 then Some (n - 48)
      else if 97 \<le> n \<and> n \<le> 102 then Some (n - 87)
      else if 65 \<le> n \<and> n \<le> 70 then Some (n - 55)
      else None)"

text \<open>Modelled from the spec: the character a short escape \<^verbatim>\<open>\e\<close> stands for.\<close>

definition unescape :: "char \<Rightarrow> char option" where
  "unescape e =
     (if e = CHR ''b'' then Some (CHR 0x08)
      else if e = CHR ''t'' then Some (CHR 0x09)
      else if e = CHR ''n'' then Some (CHR 0x0A)
      else if e = CHR ''f'' then Some (CHR 0x0C)
      else if e = CHR ''r'' then Some (CHR 0x0D)
      else if e = CHR 0x22 then Some (CHR 0x22)
      else if e = CHR 0x5C then Some (CHR 0x5C)
      else if e = CHR ''/'' then Some (CHR ''/'')
      else None)"

text \<open>
  Modelled from the spec: the characters of a JSON string after its opening quote, up to
  the closing quote; the result is the string read and the input left.
\<close>

fun parseChars :: "string \<Rightarrow> (string \<times> string) option" where
  "parseChars [] = None"
| "parseChars (c # cs) =
     (if c = CHR 0x22 then Some ([], cs)
      else if c = CHR 0x5C then
        (case cs of
           [] \<Rightarrow> None
         | e # cs1 \<Rightarrow>
             if e = CHR ''u'' then
               (case cs1 of
                  h1 # h2 # h3 # h4 # cs2 \<Rightarrow>
                    (case (hexValue h1, hexValue h2, hexValue h3, hexValue h4) of
                       (Some a, Some b, Some x, Some y) \<Rightarrow>
                         (let v = ((a * 16 + b) * 16 + x) * 16 + y in
                          if v < 128
                          then map_option (\<lambda>(s, r). (char_of v # s, r)) (parseChars cs2)
                          else None)
                     | _ \<Rightarrow> None)
                | _ \<Rightarrow> None)
             else
               (case unescape e of
                  None \<Rightarrow> None
                | Some ch \<Rightarrow> map_option (\<lambda>(s, r). (ch # s, r)) (parseChars cs1)))
      else if (of_char c :: nat) < 32 then None
      else map_option (\<lambda>(s, r). (c # s, r)) (parseChars cs))"

text \<open>Modelled from the spec: a JSON string, and a member \<^verbatim>\<open>"key":"value"\<close>.\<close>

definition parseQuoted :: "string \<Rightarrow> (string \<times> string) option" where
  "parseQuoted s =
     (case s of [] \<Rightarrow> None | c # cs \<Rightarrow> if c = CHR 0x22 then parseChars cs else None)"

definition parseMember :: "string \<Rightarrow> ((string \<times> string) \<times> string) option" where
  "parseMember s =
     (case parseQuoted s of
        None \<Rightarrow> None
      | Some (k, r) \<Rightarrow>
          (case r of
             [] \<Rightarrow> None
           | c # r1 \<Rightarrow>
               if c = CHR '':'' then
                 (case parseQuoted r1 of None \<Rightarrow> None | Some (v, r2) \<Rightarrow> Some ((k, v), r2))
               else None))"

text \<open>
  Modelled from the spec: the members of an object after its opening brace, up to the
  closing brace that ends the text. The fuel bounds the number of members read; the length
  of the text is always enough.
\<close>

fun parseMembers :: "nat \<Rightarrow> string \<Rightarrow> (string \<times> string) list option" where
  "parseMembers 0 s = None"
| "parseMembers (Suc n) s =
     (case parseMember s of
        None \<Rightarrow> None
      | Some (kv, r) \<Rightarrow>
          if r = ''}'' then Some [kv]
          else (case r of
                  [] \<Rightarrow> None
                | c # r1 \<Rightarrow>
                    if c = CHR '','' then map_option (\<lambda>kvs. kv # kvs) (parseMembers n r1)
                    else None))"

definition parseObject :: "string \<Rightarrow> (string \<times> string) list option" where
  "parseObject s =
     (case s of
        [] \<Rightarrow> None
      | c # r \<Rightarrow>
          if c = CHR ''{'' then (if r = ''}'' then Some [] else parseMembers (length r) r)
          else None)"

text \<open>
  Modelled from the spec: the decoded ticket payload, i.e. the registration id, the member's
  name and the team name read from the code (\<open>None\<close> for a property the object lacks).
\<close>

definition decodeTicket :: "string \<Rightarrow> (string option \<times> string option \<times> string option) option" where
  "decodeTicket s =
     (case parseObject s of
        None \<Rightarrow> None
      | Some obj \<Rightarrow> Some (map_of obj ''regId'', map_of obj ''name'', map_of obj ''team''))"

section \<open>Ranking: proofs\<close>

lemma assignRanks_length: "length (assignRanks i sd) = length sd"
  by (induction i sd rule: assignRanks.induct) (subst assignRanks.simps, simp)

lemma assignRanks_below: "j < i \<Longrightarrow> assignRanks i sd ! j = sd ! j"
proof (induction i sd rule: assignRanks.induct)
  case (1 i sd)
  show ?case
  proof (cases "i < length sd")
    case True
    with 1 show ?thesis by (subst assignRanks.simps) simp
  next
    case False
    then show ?thesis by (subst assignRanks.simps) simp
  qed
qed

lemma assignRanks_score: "map score (assignRanks i sd) = map score sd"
proof (induction i sd rule: assignRanks.induct)
  case (1 i sd)
  show ?case
  proof (cases "i < length sd")
    case True
    with 1 show ?thesis
      by (subst assignRanks.simps) (simp add: map_update list_update_same_conv)
  next
    case False
    then show ?thesis by (subst assignRanks.simps) simp
  qed
qed

text \<open>The step of the loop at position \<open>j\<close> is final: later steps only write further right.\<close>

lemma assignRanks_step:
  "1 \<le> i \<Longrightarrow> i \<le> j \<Longrightarrow> j < length sd \<Longrightarrow>
   rank (assignRanks i sd ! j) =
     (if score (assignRanks i sd ! j) = score (assignRanks i sd ! (j - 1))
      then rank (assignRanks i sd ! (j - 1)) else j + 1)"
proof (induction i sd rule: assignRanks.induct)
  case (1 i sd)
  let ?sd' = "sd[i := (sd ! i)\<lparr>rank :=
                 (if score (sd ! i) = score (sd ! (i - 1)) then rank (sd ! (i - 1)) else i + 1)\<rparr>]"
  from 1 have il: "i < length sd" by simp
  have unf: "assignRanks i sd = assignRanks (i + 1) ?sd'"
    using il by (subst assignRanks.simps) simp
  show ?case
  proof (cases "j = i")
    case True
    have a: "assignRanks (i + 1) ?sd' ! i = ?sd' ! i" by (rule assignRanks_below) simp
    have b: "assignRanks (i + 1) ?sd' ! (i - 1) = ?sd' ! (i - 1)"
      using 1 by (intro assignRanks_below) simp
    from 1 have c: "?sd' ! (i - 1) = sd ! (i - 1)" by simp
    show ?thesis unfolding unf True a b c using il by simp
  next
    case False
    with 1 have "i + 1 \<le> j" by simp
    with 1 il show ?thesis unfolding unf by simp
  qed
qed

lemma scoresData_rank: "t \<in> set (scoresData docs) \<Longrightarrow> rank t = 1"
  by (auto simp: scoresData_def List.map_filter_def split: option.splits)

lemma scoresData_score:
  "map score (scoresData docs) = List.map_filter (\<lambda>(i, d). points d) docs"
  by (induction docs) (auto simp: scoresData_def List.map_filter_def split: option.splits)

lemma fetchScores_cases:
  "fetchScores config docs = [] \<or> fetchScores config docs = assignRanks 1 (scoresData docs)"
  by (simp add: fetchScores_def split: option.splits)

lemma fetchScores_published:
  "config ''phase1Results'' = Some c \<Longrightarrow> published c \<Longrightarrow>
   fetchScores config docs = assignRanks 1 (scoresData docs)"
  by (simp add: fetchScores_def)

lemma fetchScores_unpublished:
  "config ''phase1Results'' = None \<or> (\<exists>c. config ''phase1Results'' = Some c \<and> \<not> published c) \<Longrightarrow>
   fetchScores config docs = []"
  by (auto simp: fetchScores_def)

lemma fetchScores_score:
  "config ''phase1Results'' = Some c \<Longrightarrow> published c \<Longrightarrow>
   map score (fetchScores config docs) = List.map_filter (\<lambda>(i, d). points d) docs"
  by (simp add: fetchScores_published assignRanks_score scoresData_score)

lemma fetchScores_first:
  assumes "fetchScores config docs \<noteq> []"
  shows "rank (fetchScores config docs ! 0) = 1"
proof -
  from assms have f: "fetchScores config docs = assignRanks 1 (scoresData docs)"
    using fetchScores_cases [of config docs] by simp
  with assms have "scoresData docs \<noteq> []"
    using assignRanks_length [of 1 "scoresData docs"] by auto
  then have "scoresData docs ! 0 \<in> set (scoresData docs)" by simp
  then have "rank (scoresData docs ! 0) = 1" by (rule scoresData_rank)
  then show ?thesis by (simp add: f assignRanks_below)
qed

lemma fetchScores_step:
  assumes "1 \<le> j" and "j < length (fetchScores config docs)"
  shows "rank (fetchScores config docs ! j) =
     (if score (fetchScores config docs ! j) = score (fetchScores config docs ! (j - 1))
      then rank (fetchScores config docs ! (j - 1)) else j + 1)"
proof -
  from assms(2) have f: "fetchScores config docs = assignRanks 1 (scoresData docs)"
    using fetchScores_cases [of config docs] by auto
  from assms show ?thesis
    unfolding f by (intro assignRanks_step) (simp_all add: assignRanks_length)
qed

lemma fetchScores_example:
  assumes "map score (fetchScores config docs) = [90, 90, 80, 70, 70, 70]"
  shows "map rank (fetchScores config docs) = [1, 1, 3, 4, 4, 4]"
proof -
  let ?r = "fetchScores config docs"
  from assms have len: "length ?r = 6" using length_map [of score ?r] by simp
  have sc: "score (?r ! j) = [90, 90, 80, 70, 70, 70] ! j" if "j < 6" for j
    using that len nth_map [of j ?r score] assms by simp
  have s0: "score (?r ! 0) = 90" and s1: "score (?r ! 1) = 90" and s2: "score (?r ! 2) = 80"
    and s3: "score (?r ! 3) = 70" and s4: "score (?r ! 4) = 70" and s5: "score (?r ! 5) = 70"
    using sc [of 0] sc [of 1] sc [of 2] sc [of 3] sc [of 4] sc [of 5] by simp_all
  from len have "?r \<noteq> []" by auto
  then have r0: "rank (?r ! 0) = 1" by (rule fetchScores_first)
  have r1: "rank (?r ! 1) = 1" using fetchScores_step [of 1 config docs] len s0 s1 r0 by simp
  have r2: "rank (?r ! 2) = 3" using fetchScores_step [of 2 config docs] len s1 s2 by simp
  have r3: "rank (?r ! 3) = 4" using fetchScores_step [of 3 config docs] len s2 s3 by simp
  have r4: "rank (?r ! 4) = 4" using fetchScores_step [of 4 config docs] len s3 s4 r3 by simp
  have r5: "rank (?r ! 5) = 4" using fetchScores_step [of 5 config docs] len s4 s5 r4 by simp
  show ?thesis
  proof (rule nth_equalityI)
    show "length (map rank ?r) = length [1, 1, 3, 4, 4, 4::nat]" using len by simp
  next
    fix i assume "i < length (map rank ?r)"
    then have "i < 6" using len by simp
    then consider "i = 0" | "i = 1" | "i = 2" | "i = 3" | "i = 4" | "i = 5" by linarith
    then show "map rank ?r ! i = [1, 1, 3, 4, 4, 4] ! i"
      using r0 r1 r2 r3 r4 r5 len by cases simp_all
  qed
qed

text \<open>
  Claim C1. Once the results are published, the scoreboard's entries are the scored
  submissions in the order of the snapshot (the query delivers them by points, descending).
  The first entry has rank 1, and every later entry at position \<open>i\<close> (counted from 0) has
  the rank of the entry before it when the two scores are equal and rank \<open>i + 1\<close>
  otherwise. In particular the scores 90, 90, 80, 70, 70, 70 get the ranks 1, 1, 3, 4, 4, 4.
  (The rule does not depend on the order of the snapshot, so it holds for the descending
  one.)
\<close>

theorem C1_competition_ranking:
  "(\<forall>c. config ''phase1Results'' = Some c \<and> published c \<longrightarrow>
        map score (fetchScores config docs) = List.map_filter (\<lambda>(i, d). points d) docs) \<and>
   (fetchScores config docs \<noteq> [] \<longrightarrow> rank (fetchScores config docs ! 0) = 1) \<and>
   (\<forall>i. 1 \<le> i \<and> i < length (fetchScores config docs) \<longrightarrow>
        rank (fetchScores config docs ! i) =
          (if score (fetchScores config docs ! i) = score (fetchScores config docs ! (i - 1))
           then rank (fetchScores config docs ! (i - 1)) else i + 1)) \<and>
   (map score (fetchScores config docs) = [90, 90, 80, 70, 70, 70] \<longrightarrow>
      map rank (fetchScores config docs) = [1, 1, 3, 4, 4, 4])"
proof (intro conjI allI impI)
  fix c assume "config ''phase1Results'' = Some c \<and> published c"
  then show "map score (fetchScores config docs) = List.map_filter (\<lambda>(i, d). points d) docs"
    by (simp add: fetchScores_score)
next
  assume "fetchScores config docs \<noteq> []"
  then show "rank (fetchScores config docs ! 0) = 1" by (rule fetchScores_first)
next
  fix i assume "1 \<le> i \<and> i < length (fetchScores config docs)"
  then show "rank (fetchScores config docs ! i) =
          (if score (fetchScores config docs ! i) = score (fetchScores config docs ! (i - 1))
           then rank (fetchScores config docs ! (i - 1)) else i + 1)"
    using fetchScores_step [of i config docs] by simp
next
  assume "map score (fetchScores config docs) = [90, 90, 80, 70, 70, 70]"
  then show "map rank (fetchScores config docs) = [1, 1, 3, 4, 4, 4]"
    by (rule fetchScores_example)
qed

theorem C1_competition_ranking_witness:
  "map rank
     (fetchScores
        [''phase1Results'' \<mapsto>
           \<lparr>published = True, publishedAt = Some ''2025-03-20T10:00:00.000Z''\<rparr>]
        (map (\<lambda>(i, p).
               (i, \<lparr>teamName = ''Team '' @ i, collegeName = ''REC'', whatsappNumber = ''9000000000'',
                    productDescription = ''p'', solution = ''s'', fileUrl = ''f'',
                    youtubeLink = ''y'', registrationId = ''SS-'' @ i, userId = i,
                    userName = ''Lead '' @ i, submittedAt = ''2025-03-01'',
                    updatedAt = ''2025-03-01'', points = Some p, review = Some ''ok'',
                    reviewedAt = Some ''2025-03-10''\<rparr>))
           [(''a'', 90), (''b'', 90), (''c'', 80), (''d'', 70), (''e'', 70), (''f'', 70)])) =
   [1, 1, 3, 4, 4, 4]"
proof -
  let ?config = "[''phase1Results'' \<mapsto>
           \<lparr>published = True, publishedAt = Some ''2025-03-20T10:00:00.000Z''\<rparr>]"
  let ?docs = "map (\<lambda>(i, p).
               (i, \<lparr>teamName = ''Team '' @ i, collegeName = ''REC'', whatsappNumber = ''9000000000'',
                    productDescription = ''p'', solution = ''s'', fileUrl = ''f'',
                    youtubeLink = ''y'', registrationId = ''SS-'' @ i, userId = i,
                    userName = ''Lead '' @ i, submittedAt = ''2025-03-01'',
                    updatedAt = ''2025-03-01'', points = Some p, review = Some ''ok'',
                    reviewedAt = Some ''2025-03-10''\<rparr>))
           [(''a'', 90::int), (''b'', 90), (''c'', 80), (''d'', 70), (''e'', 70), (''f'', 70)]"
  have p: "?config ''phase1Results'' =
             Some \<lparr>published = True, publishedAt = Some ''2025-03-20T10:00:00.000Z''\<rparr> \<and>
           published \<lparr>published = True, publishedAt = Some ''2025-03-20T10:00:00.000Z''\<rparr>"
    by simp
  have m: "List.map_filter (\<lambda>(i, d). points d) ?docs = [90, 90, 80, 70, 70, 70]"
    by (simp add: List.map_filter_def)
  note th = C1_competition_ranking [of ?config ?docs]
  from th [THEN conjunct1, rule_format, OF p] m
  have "map score (fetchScores ?config ?docs) = [90, 90, 80, 70, 70, 70]" by simp
  with th [THEN conjunct2, THEN conjunct2, THEN conjunct2] show ?thesis by blast
qed

section \<open>Publishing: proofs\<close>

lemma publishResults_refusal:
  "fst (publishResults now submissions config) =
     Inl (Error ''All submissions must be scored before publishing results'') \<longleftrightarrow>
   (\<exists>sub \<in> set submissions. points (snd sub) = None)"
proof -
  have "filter (\<lambda>(i, sub). points sub = None) submissions \<noteq> [] \<longleftrightarrow>
        (\<exists>sub \<in> set submissions. points (snd sub) = None)"
    by (simp add: filter_empty_conv case_prod_beta)
  then show ?thesis
    by (auto simp: publishResults_def updateDoc_def Let_def split: option.splits)
qed

lemma publishResults_failure_keeps_config:
  "publishResults now submissions config = (Inl e, config') \<Longrightarrow> config' = config"
  by (auto simp: publishResults_def updateDoc_def Let_def split: option.splits if_splits)

lemma publishResults_success:
  assumes "\<forall>sub \<in> set submissions. points (snd sub) \<noteq> None"
    and "config ''phase1Results'' = Some c"
  shows "publishResults now submissions config =
           (Inr (), config(''phase1Results'' \<mapsto> c\<lparr>published := True, publishedAt := Some now\<rparr>))"
proof -
  from assms(1) have "filter (\<lambda>(i, sub). points sub = None) submissions = []"
    by (simp add: filter_empty_conv case_prod_beta)
  with assms(2) show ?thesis by (simp add: publishResults_def updateDoc_def)
qed

text \<open>
  Claim C2. Publishing is refused with the "must be scored" error exactly when a known
  submission has no points (\<open>publishResults_refusal\<close>), a failed attempt writes nothing
  (\<open>publishResults_failure_keeps_config\<close>), and with every submission scored it succeeds
  when the document \<^verbatim>\<open>config/phase1Results\<close> exists (\<open>publishResults_success\<close>). The
  last part of the claim fails where that document does not exist yet: the code means to
  create it (its comment says so) but calls \<^verbatim>\<open>updateDoc\<close>, which Firestore rejects for a
  missing document. With the one known submission scored and an empty \<^verbatim>\<open>config\<close>
  collection, the operation ends in the \<^verbatim>\<open>not-found\<close> error and nothing is published.
\<close>

theorem C2_publish_fails_without_config_document:
  "publishResults ''2025-03-20T10:00:00.000Z''
     [(''A'', \<lparr>teamName = ''Alpha'', collegeName = ''REC'', whatsappNumber = ''9000000001'',
              productDescription = ''p'', solution = ''s'', fileUrl = ''f'', youtubeLink = ''y'',
              registrationId = ''SS-A'', userId = ''A'', userName = ''Lead A'',
              submittedAt = ''2025-03-01'', updatedAt = ''2025-03-01'', points = Some 80,
              review = Some ''good'', reviewedAt = Some ''2025-03-10''\<rparr>)]
     Map.empty =
   (Inl (FirebaseError ''not-found''), Map.empty)"
  by (simp add: publishResults_def updateDoc_def)

section \<open>User dashboard: proofs\<close>

text \<open>
  Claim C6. The team-member edit replaces the whole team document by one that holds the
  member list alone, so a team stored as paid is stored without any payment status after
  one edit of a member's phone number.
\<close>

theorem C6_member_edit_drops_paymentStatus:
  "handleMemberUpdate ''u1'' 0
     (noMember\<lparr>phone := Some ''9000000002''\<rparr>)
     [noMember\<lparr>name := Some ''Asha'', email := Some ''asha@example.org'',
               phone := Some ''9000000001''\<rparr>]
     [''u1'' \<mapsto> \<lparr>team_teamName = Some ''Alpha'', team_registrationId = Some ''SS-A'',
                  members = Some [noMember\<lparr>name := Some ''Asha'',
                                    email := Some ''asha@example.org'',
                                    phone := Some ''9000000001''\<rparr>],
                  team_paymentStatus = Some ''paid'', phase2Selected = True\<rparr>] =
   (Inr (),
    [noMember\<lparr>name := Some ''Asha'', email := Some ''asha@example.org'',
              phone := Some ''9000000002''\<rparr>],
    [''u1'' \<mapsto> \<lparr>team_teamName = None, team_registrationId = None,
                 members = Some [noMember\<lparr>name := Some ''Asha'',
                                   email := Some ''asha@example.org'',
                                   phone := Some ''9000000002''\<rparr>],
                 team_paymentStatus = None, phase2Selected = False\<rparr>])"
  by (simp add: handleMemberUpdate_def setDoc_def mergeMember_def noMember_def spread_def
      Let_def)

lemma countdown_closed:
  "phase2Deadline - now \<le> 0 \<Longrightarrow> countdown phase2Deadline now = ''Submission Closed''"
  by (simp add: countdown_def)

lemma controls_enabled_before_deadline:
  "now < d \<Longrightarrow>
   \<not> urlInputDisabled d now \<and> \<not> fileInputDisabled d now \<and> \<not> uploadButtonDisabled False d now"
  by (simp add: isSubmissionClosed_def urlInputDisabled_def fileInputDisabled_def
      uploadButtonDisabled_def)

lemma controls_disabled_after_deadline:
  "d < now \<Longrightarrow>
   urlInputDisabled d now \<and> fileInputDisabled d now \<and> uploadButtonDisabled loading d now"
  by (simp add: isSubmissionClosed_def urlInputDisabled_def fileInputDisabled_def
      uploadButtonDisabled_def)

text \<open>
  Claim C7. The countdown reads "Submission Closed" for every distance \<open>\<le> 0\<close>
  (\<open>countdown_closed\<close>), and the phase-2 controls are enabled before the deadline and
  disabled after it. At the deadline itself the two disagree: the countdown already reads
  "Submission Closed" while \<^verbatim>\<open>isSubmissionClosed\<close>, which compares with \<^verbatim>\<open>>\<close>, is still
  false, so the URL field, the file chooser and the upload button are all enabled.
\<close>

theorem C7_controls_enabled_at_the_deadline:
  "\<not> isSubmissionClosed d d \<and> \<not> urlInputDisabled d d \<and> \<not> fileInputDisabled d d \<and>
   \<not> uploadButtonDisabled False d d \<and> countdown d d = ''Submission Closed''"
  by (simp add: isSubmissionClosed_def urlInputDisabled_def fileInputDisabled_def
      uploadButtonDisabled_def countdown_def)

section \<open>Payment status: proofs\<close>

lemma paymentsQuery_nonempty:
  "paymentsQuery e payments \<noteq> [] \<longleftrightarrow>
   (\<exists>p \<in> set payments. payment_email p = e \<and> payment_status p = ''paid'')"
  by (simp add: paymentsQuery_def filter_empty_conv)

lemma checkPaymentStatus_paid_team:
  "team_paymentStatus t = Some ''paid'' \<Longrightarrow>
   checkPaymentStatus prev (Some t) userDoc user payments = (paid, [])"
  by (simp add: checkPaymentStatus_def)

lemma checkPaymentStatus_query:
  assumes "team_paymentStatus t \<noteq> Some ''paid''"
    and "(case userDoc of Some u \<Rightarrow> user_email u | None \<Rightarrow> auth_email user) = Some e"
    and "e \<noteq> []"
  shows "checkPaymentStatus prev (Some t) userDoc user payments =
           (if paymentsQuery e payments \<noteq> [] then paid else pending, [e])"
  using assms by (simp add: checkPaymentStatus_def truthy_def)

lemma checkPaymentStatus_untouched:
  assumes "teamDoc = None \<or>
           \<not> truthy (case userDoc of Some u \<Rightarrow> user_email u | None \<Rightarrow> auth_email user)"
    and "\<forall>t. teamDoc = Some t \<longrightarrow> team_paymentStatus t \<noteq> Some ''paid''"
  shows "checkPaymentStatus prev teamDoc userDoc user payments = (prev, [])"
  using assms by (auto simp: checkPaymentStatus_def truthy_def Let_def split: option.splits)

lemma onAuthStateChanged_participant:
  assumes "auth_email user \<noteq> Some ADMIN_CREDENTIALS_email"
    and "auth_email user \<noteq> Some ADMIN_2_CREDENTIALS_email"
  shows "paymentStatus (fst (onAuthStateChanged st (Some user) teamDocs userDocs payments)) =
           fst (checkPaymentStatus (paymentStatus st) (teamDocs (uid user)) (userDocs (uid user))
                  user payments) \<and>
         snd (onAuthStateChanged st (Some user) teamDocs userDocs payments) =
           snd (checkPaymentStatus (paymentStatus st) (teamDocs (uid user)) (userDocs (uid user))
                  user payments)"
  using assms by (simp add: onAuthStateChanged_def case_prod_beta)

text \<open>
  Claim C3, as amended. For a participant principal, whatever the state before: a Team
  record whose \<^verbatim>\<open>paymentStatus\<close> is "paid" gives paid and the payment log is not
  queried. Otherwise, if a Team record exists, the e-mail to check is the profile's stored
  e-mail when a profile record exists and the principal's e-mail when none exists; when
  that e-mail is present and not empty, the payment log is queried for it once, and the
  result is paid if a paid record with that e-mail is found and pending if not. When there
  is no Team record, or that e-mail is absent or empty, the payment log is not queried, and
  the result is pending when the status held before this resolution was pending, as it is
  initially.
\<close>

theorem C3_payment_precedence:
  assumes participant: "auth_email user \<noteq> Some ADMIN_CREDENTIALS_email"
      "auth_email user \<noteq> Some ADMIN_2_CREDENTIALS_email"
  shows
    "(\<forall>t. teamDocs (uid user) = Some t \<and> team_paymentStatus t = Some ''paid'' \<longrightarrow>
         paymentStatus (fst (onAuthStateChanged st (Some user) teamDocs userDocs payments)) = paid \<and>
         snd (onAuthStateChanged st (Some user) teamDocs userDocs payments) = []) \<and>
     (\<forall>t e. teamDocs (uid user) = Some t \<and> team_paymentStatus t \<noteq> Some ''paid'' \<and>
            (case userDocs (uid user) of Some u \<Rightarrow> user_email u | None \<Rightarrow> auth_email user) = Some e \<and>
            e \<noteq> [] \<longrightarrow>
         paymentStatus (fst (onAuthStateChanged st (Some user) teamDocs userDocs payments)) =
           (if \<exists>p \<in> set payments. payment_email p = e \<and> payment_status p = ''paid''
            then paid else pending) \<and>
         snd (onAuthStateChanged st (Some user) teamDocs userDocs payments) = [e]) \<and>
     ((teamDocs (uid user) = None \<or>
       (\<forall>t. teamDocs (uid user) = Some t \<longrightarrow> team_paymentStatus t \<noteq> Some ''paid'') \<and>
       \<not> truthy (case userDocs (uid user) of Some u \<Rightarrow> user_email u | None \<Rightarrow> auth_email user)) \<longrightarrow>
         snd (onAuthStateChanged st (Some user) teamDocs userDocs payments) = [] \<and>
         (paymentStatus st = pending \<longrightarrow>
            paymentStatus (fst (onAuthStateChanged st (Some user) teamDocs userDocs payments)) =
              pending))"
proof (intro conjI allI impI)
  note p = onAuthStateChanged_participant [OF participant, of st teamDocs userDocs payments]
  {
    fix t assume "teamDocs (uid user) = Some t \<and> team_paymentStatus t = Some ''paid''"
    then have c: "checkPaymentStatus (paymentStatus st) (teamDocs (uid user)) (userDocs (uid user))
                    user payments = (paid, [])"
      by (simp add: checkPaymentStatus_paid_team)
    show "paymentStatus (fst (onAuthStateChanged st (Some user) teamDocs userDocs payments)) = paid"
      using p c by simp
    show "snd (onAuthStateChanged st (Some user) teamDocs userDocs payments) = []"
      using p c by simp
  }
  {
    fix t e
    assume a: "teamDocs (uid user) = Some t \<and> team_paymentStatus t \<noteq> Some ''paid'' \<and>
            (case userDocs (uid user) of Some u \<Rightarrow> user_email u | None \<Rightarrow> auth_email user) = Some e \<and>
            e \<noteq> []"
    then have c: "checkPaymentStatus (paymentStatus st) (teamDocs (uid user)) (userDocs (uid user))
                    user payments = (if paymentsQuery e payments \<noteq> [] then paid else pending, [e])"
      using checkPaymentStatus_query [where t = t and userDoc = "userDocs (uid user)" and user = user
          and e = e and prev = "paymentStatus st" and payments = payments]
      by simp
    show "paymentStatus (fst (onAuthStateChanged st (Some user) teamDocs userDocs payments)) =
           (if \<exists>p \<in> set payments. payment_email p = e \<and> payment_status p = ''paid''
            then paid else pending)"
      using p c by (simp add: paymentsQuery_nonempty)
    show "snd (onAuthStateChanged st (Some user) teamDocs userDocs payments) = [e]"
      using p c by simp
  }
  {
    assume a: "teamDocs (uid user) = None \<or>
       (\<forall>t. teamDocs (uid user) = Some t \<longrightarrow> team_paymentStatus t \<noteq> Some ''paid'') \<and>
       \<not> truthy (case userDocs (uid user) of Some u \<Rightarrow> user_email u | None \<Rightarrow> auth_email user)"
    then have c: "checkPaymentStatus (paymentStatus st) (teamDocs (uid user)) (userDocs (uid user))
                    user payments = (paymentStatus st, [])"
      by (intro checkPaymentStatus_untouched) auto
    show "snd (onAuthStateChanged st (Some user) teamDocs userDocs payments) = []"
      using p c by simp
    {
      assume "paymentStatus st = pending"
      then show "paymentStatus
          (fst (onAuthStateChanged st (Some user) teamDocs userDocs payments)) = pending"
        using p c by simp
    }
  }
qed

theorem C3_payment_precedence_witness:
  "paymentStatus
     (fst (onAuthStateChanged (initial_app_state\<lparr>paymentStatus := paid\<rparr>)
             (Some \<lparr>uid = ''u1'', auth_email = Some ''asha@example.org'',
                    displayName = Some ''Asha''\<rparr>)
             [''u1'' \<mapsto> \<lparr>team_teamName = Some ''Alpha'', team_registrationId = Some ''SS-A'',
                          members = Some [], team_paymentStatus = Some ''pending'',
                          phase2Selected = False\<rparr>]
             [''u1'' \<mapsto> \<lparr>user_email = Some ''lead@example.org''\<rparr>]
             [\<lparr>payment_email = ''other@example.org'', payment_status = ''paid''\<rparr>])) = pending \<and>
   snd (onAuthStateChanged (initial_app_state\<lparr>paymentStatus := paid\<rparr>)
          (Some \<lparr>uid = ''u1'', auth_email = Some ''asha@example.org'',
                 displayName = Some ''Asha''\<rparr>)
          [''u1'' \<mapsto> \<lparr>team_teamName = Some ''Alpha'', team_registrationId = Some ''SS-A'',
                       members = Some [], team_paymentStatus = Some ''pending'',
                       phase2Selected = False\<rparr>]
          [''u1'' \<mapsto> \<lparr>user_email = Some ''lead@example.org''\<rparr>]
          [\<lparr>payment_email = ''other@example.org'', payment_status = ''paid''\<rparr>]) =
     [''lead@example.org''] \<and>
   paymentStatus
     (fst (onAuthStateChanged initial_app_state
             (Some \<lparr>uid = ''u1'', auth_email = Some ''asha@example.org'',
                    displayName = Some ''Asha''\<rparr>)
             [''u1'' \<mapsto> \<lparr>team_teamName = Some ''Alpha'', team_registrationId = Some ''SS-A'',
                          members = Some [], team_paymentStatus = Some ''pending'',
                          phase2Selected = False\<rparr>]
             Map.empty
             [\<lparr>payment_email = ''asha@example.org'', payment_status = ''paid''\<rparr>])) = paid \<and>
   paymentStatus
     (fst (onAuthStateChanged initial_app_state
             (Some \<lparr>uid = ''u1'', auth_email = Some ''asha@example.org'',
                    displayName = Some ''Asha''\<rparr>)
             [''u1'' \<mapsto> \<lparr>team_teamName = Some ''Alpha'', team_registrationId = Some ''SS-A'',
                          members = Some [], team_paymentStatus = Some ''paid'',
                          phase2Selected = False\<rparr>]
             Map.empty [])) = paid \<and>
   paymentStatus
     (fst (onAuthStateChanged initial_app_state
             (Some \<lparr>uid = ''u1'', auth_email = Some ''asha@example.org'',
                    displayName = Some ''Asha''\<rparr>)
             Map.empty Map.empty
             [\<lparr>payment_email = ''asha@example.org'', payment_status = ''paid''\<rparr>])) = pending"
proof -
  let ?u = "\<lparr>uid = ''u1'', auth_email = Some ''asha@example.org'', displayName = Some ''Asha''\<rparr>"
  have a1: "auth_email ?u \<noteq> Some ADMIN_CREDENTIALS_email"
    and a2: "auth_email ?u \<noteq> Some ADMIN_2_CREDENTIALS_email"
    by (simp_all add: ADMIN_CREDENTIALS_email_def ADMIN_2_CREDENTIALS_email_def)
  have i: "paymentStatus initial_app_state = pending" by (simp add: initial_app_state_def)
  note th = C3_payment_precedence [OF a1 a2]
  let ?t = "\<lparr>team_teamName = Some ''Alpha'', team_registrationId = Some ''SS-A'',
              members = Some [], team_paymentStatus = Some ''pending'', phase2Selected = False\<rparr>"
  let ?tp = "\<lparr>team_teamName = Some ''Alpha'', team_registrationId = Some ''SS-A'',
              members = Some [], team_paymentStatus = Some ''paid'', phase2Selected = False\<rparr>"
  let ?T = "[''u1'' \<mapsto> ?t]"
  let ?U = "[''u1'' \<mapsto> \<lparr>user_email = Some ''lead@example.org''\<rparr>]"
  let ?P = "[\<lparr>payment_email = ''other@example.org'', payment_status = ''paid''\<rparr>]"
  let ?Q = "[\<lparr>payment_email = ''asha@example.org'', payment_status = ''paid''\<rparr>]"
  let ?stale = "initial_app_state\<lparr>paymentStatus := paid\<rparr>"
  have w1: "paymentStatus (fst (onAuthStateChanged ?stale (Some ?u) ?T ?U ?P)) = pending \<and>
            snd (onAuthStateChanged ?stale (Some ?u) ?T ?U ?P) = [''lead@example.org'']"
    using th [where teamDocs = ?T and userDocs = ?U and payments = ?P and st = ?stale,
        THEN conjunct2, THEN conjunct1, rule_format, of ?t "''lead@example.org''"]
    by simp
  have w2: "paymentStatus (fst (onAuthStateChanged initial_app_state (Some ?u) ?T Map.empty ?Q)) =
            paid"
    using th [where teamDocs = ?T and userDocs = Map.empty and payments = ?Q
        and st = initial_app_state,
        THEN conjunct2, THEN conjunct1, rule_format, of ?t "''asha@example.org''"]
    by simp
  have w3: "paymentStatus (fst (onAuthStateChanged initial_app_state (Some ?u) [''u1'' \<mapsto> ?tp]
              Map.empty [])) = paid"
    using th [where teamDocs = "[''u1'' \<mapsto> ?tp]" and userDocs = Map.empty and payments = "[]"
        and st = initial_app_state, THEN conjunct1, rule_format, of ?tp]
    by simp
  have w4: "paymentStatus (fst (onAuthStateChanged initial_app_state (Some ?u) Map.empty
              Map.empty ?Q)) = pending"
    using th [where teamDocs = Map.empty and userDocs = Map.empty and payments = ?Q
        and st = initial_app_state, THEN conjunct2, THEN conjunct2, rule_format] i
    by simp
  from w1 w2 w3 w4 show ?thesis by simp
qed

text \<open>
  The claim as stated fails in two places. Where a profile record exists but stores no
  e-mail, the claim falls back to the principal's e-mail, which has a paid record in the
  payment log, and so gives paid; the code reads the e-mail of the profile record only,
  finds none, does not query the log and leaves the status pending (first three lines
  below). And where no path calls \<^verbatim>\<open>setPaymentStatus\<close> the status is the one left by the
  resolution before: after a paid principal has signed in and out, a principal with no Team
  record at all is resolved to paid, where the claim gives pending (last two lines).
\<close>

theorem C3_counterexample:
  "paymentStatus
     (fst (onAuthStateChanged initial_app_state
             (Some \<lparr>uid = ''u1'', auth_email = Some ''asha@example.org'',
                    displayName = Some ''Asha''\<rparr>)
             [''u1'' \<mapsto> \<lparr>team_teamName = Some ''Alpha'', team_registrationId = Some ''SS-A'',
                          members = Some [], team_paymentStatus = Some ''pending'',
                          phase2Selected = False\<rparr>]
             [''u1'' \<mapsto> \<lparr>user_email = None\<rparr>]
             [\<lparr>payment_email = ''asha@example.org'', payment_status = ''paid''\<rparr>])) = pending \<and>
   snd (onAuthStateChanged initial_app_state
          (Some \<lparr>uid = ''u1'', auth_email = Some ''asha@example.org'',
                 displayName = Some ''Asha''\<rparr>)
          [''u1'' \<mapsto> \<lparr>team_teamName = Some ''Alpha'', team_registrationId = Some ''SS-A'',
                       members = Some [], team_paymentStatus = Some ''pending'',
                       phase2Selected = False\<rparr>]
          [''u1'' \<mapsto> \<lparr>user_email = None\<rparr>]
          [\<lparr>payment_email = ''asha@example.org'', payment_status = ''paid''\<rparr>]) = [] \<and>
   spec_paymentStatus
     (Some \<lparr>team_teamName = Some ''Alpha'', team_registrationId = Some ''SS-A'',
            members = Some [], team_paymentStatus = Some ''pending'', phase2Selected = False\<rparr>)
     (Some \<lparr>user_email = None\<rparr>)
     \<lparr>uid = ''u1'', auth_email = Some ''asha@example.org'', displayName = Some ''Asha''\<rparr>
     [\<lparr>payment_email = ''asha@example.org'', payment_status = ''paid''\<rparr>] = paid \<and>
   paymentStatus
     (fst (onAuthStateChanged
             (fst (onAuthStateChanged
                     (fst (onAuthStateChanged initial_app_state
                             (Some \<lparr>uid = ''u1'', auth_email = Some ''asha@example.org'',
                                    displayName = Some ''Asha''\<rparr>)
                             [''u1'' \<mapsto> \<lparr>team_teamName = Some ''Alpha'',
                                          team_registrationId = Some ''SS-A'',
                                          members = Some [],
                                          team_paymentStatus = Some ''paid'',
                                          phase2Selected = False\<rparr>]
                             Map.empty []))
                     None
                     [''u1'' \<mapsto> \<lparr>team_teamName = Some ''Alpha'',
                                  team_registrationId = Some ''SS-A'', members = Some [],
                                  team_paymentStatus = Some ''paid'', phase2Selected = False\<rparr>]
                     Map.empty []))
             (Some \<lparr>uid = ''u2'', auth_email = Some ''bala@example.org'',
                    displayName = Some ''Bala''\<rparr>)
             [''u1'' \<mapsto> \<lparr>team_teamName = Some ''Alpha'', team_registrationId = Some ''SS-A'',
                          members = Some [], team_paymentStatus = Some ''paid'',
                          phase2Selected = False\<rparr>]
             Map.empty [])) = paid \<and>
   spec_paymentStatus None None
     \<lparr>uid = ''u2'', auth_email = Some ''bala@example.org'', displayName = Some ''Bala''\<rparr> [] =
     pending"
  by (simp add: onAuthStateChanged_def checkPaymentStatus_def initial_app_state_def
      ADMIN_CREDENTIALS_email_def ADMIN_2_CREDENTIALS_email_def truthy_def
      spec_paymentStatus_def spec_emailToCheck_def paymentsQuery_def)

section \<open>Phase 1 form: proofs\<close>

lemma loadSubmissionData_isSubmitted:
  "subs user_id = Some d \<Longrightarrow> isSubmitted (loadSubmissionData user_id teamDocs subs st)"
  by (simp add: loadSubmissionData_def Let_def split: option.splits)

lemma loadSubmissionData_not_submitted:
  "subs user_id = None \<Longrightarrow>
   isSubmitted (loadSubmissionData user_id teamDocs subs st) = isSubmitted st"
  by (simp add: loadSubmissionData_def Let_def split: option.splits)

lemma onChange_isSubmitted: "isSubmitted (onChange field v st) = isSubmitted st"
  by (cases field) (simp_all add: onChange_def)

lemma handleFileChange_isSubmitted:
  "isSubmitted (snd (handleFileChange selected st)) = isSubmitted st"
  by (simp add: handleFileChange_def split: option.splits)

lemma handleSubmit_isSubmitted:
  "handleSubmit user_id user_name now up url st subs = (r, st', subs', calls) \<Longrightarrow>
   isSubmitted st \<Longrightarrow> isSubmitted st'"
  by (auto simp: handleSubmit_def Let_def split: if_splits sum.splits option.splits)

lemma handleSubmit_creates:
  "handleSubmit user_id user_name now up url st subs = (Inr (), st', subs', calls) \<Longrightarrow>
   isSubmitted st' \<and> subs' user_id \<noteq> None"
  by (auto simp: handleSubmit_def Let_def setDoc_def updateDoc_def
      split: if_splits sum.splits option.splits)

text \<open>
  Claim C4, as amended. In a form session that has recorded the submission
  (\<^verbatim>\<open>isSubmitted\<close>: the form loaded the existing submission, or created it itself,
  see \<open>loadSubmissionData_isSubmitted\<close> and \<open>handleSubmit_creates\<close>), any further submit
  changes at most \<^verbatim>\<open>youtubeLink\<close> and \<^verbatim>\<open>updatedAt\<close> of the stored submission, whatever
  the form fields hold: product description, solution, college name, WhatsApp number and
  file URL (and every other field, and every other document) stay as they are. With an
  empty link nothing is written and the error is the one of the link update.
\<close>

theorem C4_locked_after_submission:
  assumes "isSubmitted st"
    and "subs user_id = Some d"
    and "handleSubmit user_id user_name now up url st subs = (r, st', subs', calls)"
  shows "\<exists>d'. subs' user_id = Some d' \<and>
           d' = d\<lparr>youtubeLink := youtubeLink d', updatedAt := updatedAt d'\<rparr> \<and>
           productDescription d' = productDescription d \<and> solution d' = solution d \<and>
           collegeName d' = collegeName d \<and> whatsappNumber d' = whatsappNumber d \<and>
           fileUrl d' = fileUrl d \<and>
           (\<forall>k. k \<noteq> user_id \<longrightarrow> subs' k = subs k) \<and>
           (form_youtubeLink (formData st) = [] \<longrightarrow>
              d' = d \<and> r = Inl (Error ''Please provide a YouTube video link'')) \<and>
           (form_youtubeLink (formData st) \<noteq> [] \<longrightarrow>
              youtubeLink d' = form_youtubeLink (formData st) \<and> updatedAt d' = now \<and> r = Inr ())"
proof (cases "form_youtubeLink (formData st) = []")
  case True
  with assms have "subs' = subs" "r = Inl (Error ''Please provide a YouTube video link'')"
    by (auto simp: handleSubmit_def)
  with assms(2) True show ?thesis by simp
next
  case False
  with assms have
    "subs' = subs(user_id \<mapsto> d\<lparr>youtubeLink := form_youtubeLink (formData st), updatedAt := now\<rparr>)"
    "r = Inr ()"
    by (auto simp: handleSubmit_def updateDoc_def)
  with False show ?thesis by simp
qed

theorem C4_locked_after_submission_witness:
  "map_option (\<lambda>d. (productDescription d, youtubeLink d))
     (fst (snd (snd
        (handleSubmit ''u1'' ''Asha'' ''2025-03-05T09:00:00.000Z''
           Map.empty Inr
           \<lparr>formData =
              \<lparr>form_teamName = ''Alpha'', form_collegeName = ''Another college'',
               form_whatsappNumber = ''9000000009'', form_productDescription = ''second idea'',
               form_solution = ''another solution'', form_fileUrl = ''elsewhere'',
               form_youtubeLink = ''https://youtu.be/abc'', form_registrationId = ''SS-A''\<rparr>,
            form_file = Some \<lparr>file_name = ''other.pptx'',
              file_type = ''application/vnd.openxmlformats-officedocument.presentationml.presentation''\<rparr>,
            isSubmitted = True\<rparr>
           [''u1'' \<mapsto>
              \<lparr>teamName = ''Alpha'', collegeName = ''REC'', whatsappNumber = ''9000000001'',
               productDescription = ''first idea'', solution = ''a solution'',
               fileUrl = ''https://files.example/presentations/u1_deck.pptx'',
               youtubeLink = [], registrationId = ''SS-A'', userId = ''u1'', userName = ''Asha'',
               submittedAt = ''2025-03-01T09:00:00.000Z'',
               updatedAt = ''2025-03-01T09:00:00.000Z'',
               points = Some 80, review = Some ''good'',
               reviewedAt = Some ''2025-03-04T09:00:00.000Z''\<rparr>]))) ''u1'') =
   Some (''first idea'', ''https://youtu.be/abc'')"
proof -
  let ?st = "\<lparr>formData =
              \<lparr>form_teamName = ''Alpha'', form_collegeName = ''Another college'',
               form_whatsappNumber = ''9000000009'', form_productDescription = ''second idea'',
               form_solution = ''another solution'', form_fileUrl = ''elsewhere'',
               form_youtubeLink = ''https://youtu.be/abc'', form_registrationId = ''SS-A''\<rparr>,
            form_file = Some \<lparr>file_name = ''other.pptx'',
              file_type = ''application/vnd.openxmlformats-officedocument.presentationml.presentation''\<rparr>,
            isSubmitted = True\<rparr>"
  let ?d = "\<lparr>teamName = ''Alpha'', collegeName = ''REC'', whatsappNumber = ''9000000001'',
               productDescription = ''first idea'', solution = ''a solution'',
               fileUrl = ''https://files.example/presentations/u1_deck.pptx'',
               youtubeLink = [], registrationId = ''SS-A'', userId = ''u1'', userName = ''Asha'',
               submittedAt = ''2025-03-01T09:00:00.000Z'',
               updatedAt = ''2025-03-01T09:00:00.000Z'',
               points = Some 80, review = Some ''good'',
               reviewedAt = Some ''2025-03-04T09:00:00.000Z''\<rparr>"
  let ?h = "handleSubmit ''u1'' ''Asha'' ''2025-03-05T09:00:00.000Z''
           Map.empty Inr ?st [''u1'' \<mapsto> ?d]"
  obtain r st' subs' calls where h: "?h = (r, st', subs', calls)" by (cases ?h) blast
  have s: "isSubmitted ?st" by simp
  have e: "[''u1'' \<mapsto> ?d] ''u1'' = Some ?d" by simp
  from C4_locked_after_submission [OF s e h] obtain d' where
    "subs' ''u1'' = Some d'" "productDescription d' = productDescription ?d"
    "form_youtubeLink (formData ?st) \<noteq> [] \<longrightarrow>
       youtubeLink d' = form_youtubeLink (formData ?st) \<and>
       updatedAt d' = ''2025-03-05T09:00:00.000Z'' \<and> r = Inr ()"
    by blast
  then have "map_option (\<lambda>d. (productDescription d, youtubeLink d)) (subs' ''u1'') =
             Some (''first idea'', ''https://youtu.be/abc'')"
    by simp
  with h show ?thesis by simp
qed

lemma sessions_of_counterexample_reachable:
  "snd (handleFileChange
          (Some \<lparr>file_name = ''deck.pptx'',
             file_type = ''application/vnd.openxmlformats-officedocument.presentationml.presentation''\<rparr>)
          (onChange Solution ''a solution''
             (onChange ProductDescription desc
                (onChange WhatsappNumber ''9000000001''
                   (onChange CollegeName ''REC''
                      (loadSubmissionData ''u1''
                         [''u1'' \<mapsto> \<lparr>team_teamName = Some ''Alpha'',
                                      team_registrationId = Some ''SS-A'', members = Some [],
                                      team_paymentStatus = Some ''paid'',
                                      phase2Selected = False\<rparr>]
                         Map.empty initial_form_state)))))) =
   \<lparr>formData =
      \<lparr>form_teamName = ''Alpha'', form_collegeName = ''REC'',
       form_whatsappNumber = ''9000000001'', form_productDescription = desc,
       form_solution = ''a solution'', form_fileUrl = [], form_youtubeLink = [],
       form_registrationId = ''SS-A''\<rparr>,
    form_file = Some \<lparr>file_name = ''deck.pptx'',
       file_type = ''application/vnd.openxmlformats-officedocument.presentationml.presentation''\<rparr>,
    isSubmitted = False\<rparr>"
  by (simp add: handleFileChange_def onChange_def loadSubmissionData_def initial_form_state_def
      orEmpty_def)

text \<open>
  The claim as stated fails because the lock is the flag of one form session, not a
  property of the stored document. Two sessions of the same team open the form before any
  submission exists (\<open>sessions_of_counterexample_reachable\<close>); the first submits "first
  idea"; the second, whose flag is still unset, then submits "second idea", and the stored
  submission is replaced as a whole.
\<close>

theorem C4_counterexample:
  "handleSubmit ''u1'' ''Asha'' ''2025-03-01T09:00:00.000Z'' Map.empty Inr
     \<lparr>formData =
        \<lparr>form_teamName = ''Alpha'', form_collegeName = ''REC'',
         form_whatsappNumber = ''9000000001'', form_productDescription = ''first idea'',
         form_solution = ''a solution'', form_fileUrl = [], form_youtubeLink = [],
         form_registrationId = ''SS-A''\<rparr>,
      form_file = Some \<lparr>file_name = ''deck.pptx'',
         file_type = ''application/vnd.openxmlformats-officedocument.presentationml.presentation''\<rparr>,
      isSubmitted = False\<rparr>
     Map.empty =
   (Inr (),
    \<lparr>formData =
        \<lparr>form_teamName = ''Alpha'', form_collegeName = ''REC'',
         form_whatsappNumber = ''9000000001'', form_productDescription = ''first idea'',
         form_solution = ''a solution'', form_fileUrl = [], form_youtubeLink = [],
         form_registrationId = ''SS-A''\<rparr>,
      form_file = Some \<lparr>file_name = ''deck.pptx'',
         file_type = ''application/vnd.openxmlformats-officedocument.presentationml.presentation''\<rparr>,
      isSubmitted = True\<rparr>,
    [''u1'' \<mapsto>
       \<lparr>teamName = ''Alpha'', collegeName = ''REC'', whatsappNumber = ''9000000001'',
        productDescription = ''first idea'', solution = ''a solution'',
        fileUrl = ''presentations/u1_deck.pptx'', youtubeLink = [], registrationId = ''SS-A'',
        userId = ''u1'', userName = ''Asha'', submittedAt = ''2025-03-01T09:00:00.000Z'',
        updatedAt = ''2025-03-01T09:00:00.000Z'', points = None, review = None,
        reviewedAt = None\<rparr>],
    [UploadBytes ''presentations/u1_deck.pptx'', GetDownloadURL ''presentations/u1_deck.pptx'',
     SetDoc ''phase1_submissions'' ''u1'']) \<and>
   handleSubmit ''u1'' ''Asha'' ''2025-03-01T09:05:00.000Z'' Map.empty Inr
     \<lparr>formData =
        \<lparr>form_teamName = ''Alpha'', form_collegeName = ''REC'',
         form_whatsappNumber = ''9000000001'', form_productDescription = ''second idea'',
         form_solution = ''a solution'', form_fileUrl = [], form_youtubeLink = [],
         form_registrationId = ''SS-A''\<rparr>,
      form_file = Some \<lparr>file_name = ''deck.pptx'',
         file_type = ''application/vnd.openxmlformats-officedocument.presentationml.presentation''\<rparr>,
      isSubmitted = False\<rparr>
     [''u1'' \<mapsto>
       \<lparr>teamName = ''Alpha'', collegeName = ''REC'', whatsappNumber = ''9000000001'',
        productDescription = ''first idea'', solution = ''a solution'',
        fileUrl = ''presentations/u1_deck.pptx'', youtubeLink = [], registrationId = ''SS-A'',
        userId = ''u1'', userName = ''Asha'', submittedAt = ''2025-03-01T09:00:00.000Z'',
        updatedAt = ''2025-03-01T09:00:00.000Z'', points = None, review = None,
        reviewedAt = None\<rparr>] =
   (Inr (),
    \<lparr>formData =
        \<lparr>form_teamName = ''Alpha'', form_collegeName = ''REC'',
         form_whatsappNumber = ''9000000001'', form_productDescription = ''second idea'',
         form_solution = ''a solution'', form_fileUrl = [], form_youtubeLink = [],
         form_registrationId = ''SS-A''\<rparr>,
      form_file = Some \<lparr>file_name = ''deck.pptx'',
         file_type = ''application/vnd.openxmlformats-officedocument.presentationml.presentation''\<rparr>,
      isSubmitted = True\<rparr>,
    [''u1'' \<mapsto>
       \<lparr>teamName = ''Alpha'', collegeName = ''REC'', whatsappNumber = ''9000000001'',
        productDescription = ''second idea'', solution = ''a solution'',
        fileUrl = ''presentations/u1_deck.pptx'', youtubeLink = [], registrationId = ''SS-A'',
        userId = ''u1'', userName = ''Asha'', submittedAt = ''2025-03-01T09:05:00.000Z'',
        updatedAt = ''2025-03-01T09:05:00.000Z'', points = None, review = None,
        reviewedAt = None\<rparr>],
    [UploadBytes ''presentations/u1_deck.pptx'', GetDownloadURL ''presentations/u1_deck.pptx'',
     SetDoc ''phase1_submissions'' ''u1''])"
  by (simp add: handleSubmit_def setDoc_def Let_def)

section \<open>Upload before write: proofs\<close>

lemma handleSubmit_upload_rejected:
  assumes "\<not> isSubmitted st" and "form_file st = Some f"
    and "uploadBytes (''presentations/'' @ user_id @ ''_'' @ file_name f) = Some e"
    and "handleSubmit user_id user_name now uploadBytes getDownloadURL st subs =
           (r, st', subs', calls)"
  shows "subs' = subs \<and> st' = st \<and> (\<forall>c \<in> set calls. \<not> isWrite c) \<and> (\<exists>e'. r = Inl e')"
  using assms by (auto simp: handleSubmit_def Let_def isWrite_def split: if_splits)

lemma handleSubmit_url_rejected:
  assumes "\<not> isSubmitted st" and "form_file st = Some f"
    and "getDownloadURL (''presentations/'' @ user_id @ ''_'' @ file_name f) = Inl e"
    and "handleSubmit user_id user_name now uploadBytes getDownloadURL st subs =
           (r, st', subs', calls)"
  shows "subs' = subs \<and> st' = st \<and> (\<forall>c \<in> set calls. \<not> isWrite c) \<and> (\<exists>e'. r = Inl e')"
  using assms
  by (auto simp: handleSubmit_def Let_def isWrite_def split: if_splits option.splits)

lemma handleSubmit_write_after_upload:
  assumes "\<not> isSubmitted st"
    and "handleSubmit user_id user_name now uploadBytes getDownloadURL st subs =
           (r, st', subs', calls)"
    and "\<exists>c \<in> set calls. isWrite c"
  shows "\<exists>f u. form_file st = Some f \<and>
           uploadBytes (''presentations/'' @ user_id @ ''_'' @ file_name f) = None \<and>
           getDownloadURL (''presentations/'' @ user_id @ ''_'' @ file_name f) = Inr u \<and>
           calls = [UploadBytes (''presentations/'' @ user_id @ ''_'' @ file_name f),
                    GetDownloadURL (''presentations/'' @ user_id @ ''_'' @ file_name f),
                    SetDoc ''phase1_submissions'' user_id]"
  using assms
  by (auto simp: handleSubmit_def Let_def isWrite_def split: if_splits option.splits sum.splits)

lemma handleProposalUpload_upload_rejected:
  assumes "businessProposal = Some f"
    and "uploadBytes (''proposals/'' @ user_id @ ''_'' @ file_name f) = Some e \<or>
         getDownloadURL (''proposals/'' @ user_id @ ''_'' @ file_name f) = Inl e"
    and "handleProposalUpload user_id now uploadBytes getDownloadURL businessProposal videoUrl
           props = (r, props', calls)"
  shows "props' = props \<and> (\<forall>c \<in> set calls. \<not> isWrite c) \<and> (\<exists>e'. r = Inl e')"
  using assms
  by (auto simp: handleProposalUpload_def Let_def isWrite_def split: option.splits)

lemma handleProposalUpload_write_after_upload:
  assumes "handleProposalUpload user_id now uploadBytes getDownloadURL businessProposal videoUrl
             props = (r, props', calls)"
    and "\<exists>c \<in> set calls. isWrite c"
  shows "\<exists>f u. businessProposal = Some f \<and>
           uploadBytes (''proposals/'' @ user_id @ ''_'' @ file_name f) = None \<and>
           getDownloadURL (''proposals/'' @ user_id @ ''_'' @ file_name f) = Inr u \<and>
           calls = [UploadBytes (''proposals/'' @ user_id @ ''_'' @ file_name f),
                    GetDownloadURL (''proposals/'' @ user_id @ ''_'' @ file_name f),
                    SetDoc ''phase2_submissions'' user_id]"
  using assms
  by (auto simp: handleProposalUpload_def Let_def isWrite_def split: option.splits sum.splits)

text \<open>
  Claim C9. In the phase-1 initial submission and in the phase-2 proposal upload, when the
  upload of the chosen file is rejected (or its URL cannot be fetched), the handler ends
  with an error, makes no call that writes a document and leaves the collection as it was.
  Conversely, whenever one of the two flows writes a document, its calls were exactly the
  upload, the fetch of the URL and the write, in this order, the first two successful.
\<close>

theorem C9_no_write_after_failed_upload:
  "(\<forall>f e r st' subs' calls.
      \<not> isSubmitted st \<and> form_file st = Some f \<and>
      (uploadBytes (''presentations/'' @ user_id @ ''_'' @ file_name f) = Some e \<or>
       getDownloadURL (''presentations/'' @ user_id @ ''_'' @ file_name f) = Inl e) \<and>
      handleSubmit user_id user_name now uploadBytes getDownloadURL st subs =
        (r, st', subs', calls) \<longrightarrow>
      subs' = subs \<and> (\<forall>c \<in> set calls. \<not> isWrite c) \<and> (\<exists>e'. r = Inl e')) \<and>
   (\<forall>r st' subs' calls.
      \<not> isSubmitted st \<and>
      handleSubmit user_id user_name now uploadBytes getDownloadURL st subs =
        (r, st', subs', calls) \<and>
      (\<exists>c \<in> set calls. isWrite c) \<longrightarrow>
      (\<exists>f u. form_file st = Some f \<and>
         uploadBytes (''presentations/'' @ user_id @ ''_'' @ file_name f) = None \<and>
         getDownloadURL (''presentations/'' @ user_id @ ''_'' @ file_name f) = Inr u \<and>
         calls = [UploadBytes (''presentations/'' @ user_id @ ''_'' @ file_name f),
                  GetDownloadURL (''presentations/'' @ user_id @ ''_'' @ file_name f),
                  SetDoc ''phase1_submissions'' user_id])) \<and>
   (\<forall>f e r props' calls.
      businessProposal = Some f \<and>
      (uploadBytes (''proposals/'' @ user_id @ ''_'' @ file_name f) = Some e \<or>
       getDownloadURL (''proposals/'' @ user_id @ ''_'' @ file_name f) = Inl e) \<and>
      handleProposalUpload user_id now uploadBytes getDownloadURL businessProposal videoUrl
        props = (r, props', calls) \<longrightarrow>
      props' = props \<and> (\<forall>c \<in> set calls. \<not> isWrite c) \<and> (\<exists>e'. r = Inl e')) \<and>
   (\<forall>r props' calls.
      handleProposalUpload user_id now uploadBytes getDownloadURL businessProposal videoUrl
        props = (r, props', calls) \<and>
      (\<exists>c \<in> set calls. isWrite c) \<longrightarrow>
      (\<exists>f u. businessProposal = Some f \<and>
         uploadBytes (''proposals/'' @ user_id @ ''_'' @ file_name f) = None \<and>
         getDownloadURL (''proposals/'' @ user_id @ ''_'' @ file_name f) = Inr u \<and>
         calls = [UploadBytes (''proposals/'' @ user_id @ ''_'' @ file_name f),
                  GetDownloadURL (''proposals/'' @ user_id @ ''_'' @ file_name f),
                  SetDoc ''phase2_submissions'' user_id]))"
proof (intro conjI allI impI)
  fix f e r st' subs' calls
  assume a: "\<not> isSubmitted st \<and> form_file st = Some f \<and>
      (uploadBytes (''presentations/'' @ user_id @ ''_'' @ file_name f) = Some e \<or>
       getDownloadURL (''presentations/'' @ user_id @ ''_'' @ file_name f) = Inl e) \<and>
      handleSubmit user_id user_name now uploadBytes getDownloadURL st subs =
        (r, st', subs', calls)"
  then have "subs' = subs \<and> st' = st \<and> (\<forall>c \<in> set calls. \<not> isWrite c) \<and> (\<exists>e'. r = Inl e')"
    using handleSubmit_upload_rejected [of st f uploadBytes user_id e user_name now
        getDownloadURL subs r st' subs' calls]
      handleSubmit_url_rejected [of st f getDownloadURL user_id e user_name now
        uploadBytes subs r st' subs' calls]
    by blast
  then show "subs' = subs" "\<forall>c \<in> set calls. \<not> isWrite c" "\<exists>e'. r = Inl e'" by simp_all
next
  fix r st' subs' calls
  assume "\<not> isSubmitted st \<and>
      handleSubmit user_id user_name now uploadBytes getDownloadURL st subs =
        (r, st', subs', calls) \<and>
      (\<exists>c \<in> set calls. isWrite c)"
  then show "\<exists>f u. form_file st = Some f \<and>
         uploadBytes (''presentations/'' @ user_id @ ''_'' @ file_name f) = None \<and>
         getDownloadURL (''presentations/'' @ user_id @ ''_'' @ file_name f) = Inr u \<and>
         calls = [UploadBytes (''presentations/'' @ user_id @ ''_'' @ file_name f),
                  GetDownloadURL (''presentations/'' @ user_id @ ''_'' @ file_name f),
                  SetDoc ''phase1_submissions'' user_id]"
    using handleSubmit_write_after_upload by blast
next
  fix f e r props' calls
  assume a: "businessProposal = Some f \<and>
      (uploadBytes (''proposals/'' @ user_id @ ''_'' @ file_name f) = Some e \<or>
       getDownloadURL (''proposals/'' @ user_id @ ''_'' @ file_name f) = Inl e) \<and>
      handleProposalUpload user_id now uploadBytes getDownloadURL businessProposal videoUrl
        props = (r, props', calls)"
  then have "props' = props \<and> (\<forall>c \<in> set calls. \<not> isWrite c) \<and> (\<exists>e'. r = Inl e')"
    using handleProposalUpload_upload_rejected [of businessProposal f uploadBytes user_id e
        getDownloadURL now videoUrl props r props' calls]
    by blast
  then show "props' = props" "\<forall>c \<in> set calls. \<not> isWrite c" "\<exists>e'. r = Inl e'" by simp_all
next
  fix r props' calls
  assume "handleProposalUpload user_id now uploadBytes getDownloadURL businessProposal videoUrl
        props = (r, props', calls) \<and>
      (\<exists>c \<in> set calls. isWrite c)"
  then show "\<exists>f u. businessProposal = Some f \<and>
         uploadBytes (''proposals/'' @ user_id @ ''_'' @ file_name f) = None \<and>
         getDownloadURL (''proposals/'' @ user_id @ ''_'' @ file_name f) = Inr u \<and>
         calls = [UploadBytes (''proposals/'' @ user_id @ ''_'' @ file_name f),
                  GetDownloadURL (''proposals/'' @ user_id @ ''_'' @ file_name f),
                  SetDoc ''phase2_submissions'' user_id]"
    using handleProposalUpload_write_after_upload by blast
qed

theorem C9_no_write_after_failed_upload_witness:
  "fst (snd (snd
     (handleSubmit ''u1'' ''Asha'' ''2025-03-01T09:00:00.000Z''
        (\<lambda>p. Some (FirebaseError ''storage/unauthorized'')) Inr
        \<lparr>formData =
           \<lparr>form_teamName = ''Alpha'', form_collegeName = ''REC'',
            form_whatsappNumber = ''9000000001'', form_productDescription = ''first idea'',
            form_solution = ''a solution'', form_fileUrl = [], form_youtubeLink = [],
            form_registrationId = ''SS-A''\<rparr>,
         form_file = Some \<lparr>file_name = ''deck.pptx'',
            file_type = ''application/vnd.openxmlformats-officedocument.presentationml.presentation''\<rparr>,
         isSubmitted = False\<rparr>
        Map.empty))) = Map.empty \<and>
   filter isWrite (snd (snd (snd
     (handleSubmit ''u1'' ''Asha'' ''2025-03-01T09:00:00.000Z''
        (\<lambda>p. Some (FirebaseError ''storage/unauthorized'')) Inr
        \<lparr>formData =
           \<lparr>form_teamName = ''Alpha'', form_collegeName = ''REC'',
            form_whatsappNumber = ''9000000001'', form_productDescription = ''first idea'',
            form_solution = ''a solution'', form_fileUrl = [], form_youtubeLink = [],
            form_registrationId = ''SS-A''\<rparr>,
         form_file = Some \<lparr>file_name = ''deck.pptx'',
            file_type = ''application/vnd.openxmlformats-officedocument.presentationml.presentation''\<rparr>,
         isSubmitted = False\<rparr>
        Map.empty)))) = [] \<and>
   fst (snd
     (handleProposalUpload ''u1'' ''2025-04-01T09:00:00.000Z''
        (\<lambda>p. Some (FirebaseError ''storage/unauthorized'')) Inr
        (Some \<lparr>file_name = ''proposal.pdf'', file_type = ''application/pdf''\<rparr>)
        ''https://youtu.be/abc'' Map.empty)) = Map.empty \<and>
   filter isWrite (snd (snd
     (handleProposalUpload ''u1'' ''2025-04-01T09:00:00.000Z''
        (\<lambda>p. Some (FirebaseError ''storage/unauthorized'')) Inr
        (Some \<lparr>file_name = ''proposal.pdf'', file_type = ''application/pdf''\<rparr>)
        ''https://youtu.be/abc'' Map.empty))) = []"
proof -
  let ?up = "\<lambda>p::string. Some (FirebaseError ''storage/unauthorized'')"
  let ?st = "\<lparr>formData =
           \<lparr>form_teamName = ''Alpha'', form_collegeName = ''REC'',
            form_whatsappNumber = ''9000000001'', form_productDescription = ''first idea'',
            form_solution = ''a solution'', form_fileUrl = [], form_youtubeLink = [],
            form_registrationId = ''SS-A''\<rparr>,
         form_file = Some \<lparr>file_name = ''deck.pptx'',
            file_type = ''application/vnd.openxmlformats-officedocument.presentationml.presentation''\<rparr>,
         isSubmitted = False\<rparr>"
  let ?f = "\<lparr>file_name = ''deck.pptx'',
            file_type = ''application/vnd.openxmlformats-officedocument.presentationml.presentation''\<rparr>"
  let ?g = "\<lparr>file_name = ''proposal.pdf'', file_type = ''application/pdf''\<rparr>"
  let ?h1 = "handleSubmit ''u1'' ''Asha'' ''2025-03-01T09:00:00.000Z'' ?up Inr ?st Map.empty"
  let ?h2 = "handleProposalUpload ''u1'' ''2025-04-01T09:00:00.000Z'' ?up Inr (Some ?g)
               ''https://youtu.be/abc'' Map.empty"
  note th1 = C9_no_write_after_failed_upload [where st = ?st and uploadBytes = ?up
      and user_id = "''u1''" and getDownloadURL = Inr and user_name = "''Asha''"
      and now = "''2025-03-01T09:00:00.000Z''" and subs = Map.empty]
  note th2 = C9_no_write_after_failed_upload [where uploadBytes = ?up
      and user_id = "''u1''" and getDownloadURL = Inr
      and now = "''2025-04-01T09:00:00.000Z''" and businessProposal = "Some ?g"
      and videoUrl = "''https://youtu.be/abc''" and props = Map.empty]
  obtain r st' subs' calls where h1: "?h1 = (r, st', subs', calls)" by (cases ?h1) blast
  obtain pr props' pcalls where h2: "?h2 = (pr, props', pcalls)" by (cases ?h2) blast
  have c1: "subs' = Map.empty \<and> (\<forall>c \<in> set calls. \<not> isWrite c) \<and> (\<exists>e'. r = Inl e')"
    using th1 [THEN conjunct1, rule_format,
        of ?f "FirebaseError ''storage/unauthorized''" r st' subs' calls] h1
    by simp
  have c2: "props' = Map.empty \<and> (\<forall>c \<in> set pcalls. \<not> isWrite c) \<and> (\<exists>e'. pr = Inl e')"
    using th2 [THEN conjunct2, THEN conjunct2, THEN conjunct1, rule_format,
        of ?g "FirebaseError ''storage/unauthorized''" pr props' pcalls] h2
    by simp
  from c1 c2 have "subs' = Map.empty" "filter isWrite calls = []"
    "props' = Map.empty" "filter isWrite pcalls = []"
    by (simp_all add: filter_empty_conv)
  with h1 h2 show ?thesis by simp
qed

section \<open>Workshop invitations: proofs\<close>

lemma inviteTeams_teams:
  "map fst (snd (inviteTeams toDataURL sendMail wd c ts)) = ts"
  by (induction ts arbitrary: c) (simp_all add: case_prod_beta Let_def)


lemma inviteTeams_entry:
  "(team, ok, sent) \<in> set (snd (inviteTeams toDataURL sendMail wd c ts)) \<Longrightarrow>
   team \<in> set ts \<and> (ok, sent) = sendWorkshopInvite toDataURL sendMail (snd team) wd"
  by (induction ts arbitrary: c) (auto simp: case_prod_beta Let_def)

text \<open>
  The loop over a team's members: it reaches exactly the members before the first one whose
  ticket is not generated, hands one message to the transport for each of them, and ends
  without an error exactly when every ticket was generated. What the transport answers
  plays no part.
\<close>

lemma inviteMembers_exact:
  "(fst (inviteMembers toDataURL sendMail t wd ms) = Inr () \<longleftrightarrow>
      list_all (ticketGenerated toDataURL t wd) ms) \<and>
   map (mail_to \<circ> fst) (snd (inviteMembers toDataURL sendMail t wd ms)) =
     map email (takeWhile (ticketGenerated toDataURL t wd) ms) \<and>
   (\<forall>(m, b) \<in> set (snd (inviteMembers toDataURL sendMail t wd ms)). b = sendMail m)"
proof (induction ms)
  case Nil
  show ?case by simp
next
  case (Cons m ms)
  show ?case
  proof (cases "generateETicket toDataURL (eTicketData t wd m)")
    case (Inl e)
    then show ?thesis by (simp add: ticketGenerated_def)
  next
    case (Inr p)
    with Cons show ?thesis
      by (simp add: ticketGenerated_def case_prod_beta Let_def sendEmail_def)
  qed
qed

lemma sendWorkshopInvite_exact:
  assumes "members t = Some ms"
  shows "fst (sendWorkshopInvite toDataURL sendMail t wd) =
           list_all (ticketGenerated toDataURL t wd) ms \<and>
         map (mail_to \<circ> fst) (snd (sendWorkshopInvite toDataURL sendMail t wd)) =
           map email (takeWhile (ticketGenerated toDataURL t wd) ms) \<and>
         (\<forall>(m, b) \<in> set (snd (sendWorkshopInvite toDataURL sendMail t wd)). b = sendMail m)"
proof -
  obtain r sent where i: "inviteMembers toDataURL sendMail t wd ms = (r, sent)"
    by (cases "inviteMembers toDataURL sendMail t wd ms")
  with inviteMembers_exact [of toDataURL sendMail t wd ms]
  have "(r = Inr ()) = list_all (ticketGenerated toDataURL t wd) ms"
    "map (mail_to \<circ> fst) sent = map email (takeWhile (ticketGenerated toDataURL t wd) ms)"
    "\<forall>(m, b) \<in> set sent. b = sendMail m"
    by simp_all
  with i assms show ?thesis by (cases r) (simp_all add: sendWorkshopInvite_def)
qed

lemma sendWorkshopInvite_no_members:
  "members t = None \<Longrightarrow> sendWorkshopInvite toDataURL sendMail t wd = (False, [])"
  by (simp add: sendWorkshopInvite_def)

lemma handleSendWorkshopInvites_filled:
  assumes "title (details st) \<noteq> []" "date (details st) \<noteq> []" "venue (details st) \<noteq> []"
  shows "handleSendWorkshopInvites toDataURL sendMail st =
           (Inr (fst (inviteTeams toDataURL sendMail (details st)
                        \<lparr>successCount = 0, failCount = 0\<rparr> (teams st))),
            snd (inviteTeams toDataURL sendMail (details st)
                   \<lparr>successCount = 0, failCount = 0\<rparr> (teams st)))"
  using assms by (simp add: handleSendWorkshopInvites_def case_prod_beta)

lemma handleSendWorkshopInvites_entry:
  assumes "title (details st) \<noteq> []" "date (details st) \<noteq> []" "venue (details st) \<noteq> []"
    and "(team, ok, sent) \<in> set (snd (handleSendWorkshopInvites toDataURL sendMail st))"
  shows "team \<in> set (teams st) \<and>
         ok = fst (sendWorkshopInvite toDataURL sendMail (snd team) (details st)) \<and>
         sent = snd (sendWorkshopInvite toDataURL sendMail (snd team) (details st))"
proof -
  from assms have "(team, ok, sent) \<in> set (snd (inviteTeams toDataURL sendMail (details st)
                   \<lparr>successCount = 0, failCount = 0\<rparr> (teams st)))"
    by (simp add: handleSendWorkshopInvites_filled)
  then have "team \<in> set (teams st) \<and>
             (ok, sent) = sendWorkshopInvite toDataURL sendMail (snd team) (details st)"
    by (rule inviteTeams_entry)
  then show ?thesis by (metis fst_conv snd_conv)
qed









text \<open>
  What the dashboard's list holds: a fetch that succeeds replaces it by the teams of the
  snapshot that pass the two tests the fetch was started with; a fetch that fails, and the
  two setters, leave it as it was.
\<close>

lemma teamsData_filter:
  "teamsData toLowerCase term fStatus snapshot =
     filter (\<lambda>(i, team). matchesSearch toLowerCase term team \<and> matchesStatus fStatus team)
       snapshot"
proof -
  have "(if fStatus = FilterSelected then phase2Selected t else \<not> phase2Selected t) =
        matchesStatus fStatus t" if "fStatus \<noteq> FilterAll" for t
    using that by (cases fStatus) (simp_all add: matchesStatus_def)
  moreover have "matchesStatus FilterAll t" for t by (simp add: matchesStatus_def)
  moreover have "matchesSearch toLowerCase [] t" for t by (simp add: matchesSearch_def)
  ultimately show ?thesis
    by (auto simp: teamsData_def Let_def matchesSearch_def case_prod_beta intro!: filter_cong)
qed

lemma fetchTeams_resolved:
  "teams (fetchTeams toLowerCase term fStatus (Inr snapshot) st) =
     teamsData toLowerCase term fStatus snapshot \<and>
   searchTerm (fetchTeams toLowerCase term fStatus (Inr snapshot) st) = searchTerm st \<and>
   filterStatus (fetchTeams toLowerCase term fStatus (Inr snapshot) st) = filterStatus st \<and>
   details (fetchTeams toLowerCase term fStatus (Inr snapshot) st) = details st"
  by (simp add: fetchTeams_def)

lemma fetchTeams_rejected: "fetchTeams toLowerCase term fStatus (Inl e) st = st"
  by (simp add: fetchTeams_def)

lemma setters_keep_teams:
  "teams (setSearchTerm v st) = teams st \<and> teams (setFilterStatus f st) = teams st"
  by (simp add: setSearchTerm_def setFilterStatus_def)

text \<open>
  Claim C10, as amended. With the workshop details filled in, the teams the batch calls
  \<^verbatim>\<open>sendWorkshopInvite\<close> for are exactly the teams of the list the dashboard holds at
  dispatch time, in its order, and the messages of a team go to its members up to the first
  one whose ticket cannot be generated. When that list was put there by a fetch that
  succeeded under the search term and status filter the dashboard has at dispatch time,
  the teams attempted are exactly the teams of the fetched snapshot that pass both tests,
  in the snapshot's order, and a team of the snapshot that fails a test is not attempted.
\<close>

theorem C10_batch_follows_the_fetched_list:
  assumes "title (details st) \<noteq> []" "date (details st) \<noteq> []" "venue (details st) \<noteq> []"
  shows
    "map fst (snd (handleSendWorkshopInvites toDataURL sendMail st)) = teams st \<and>
     (\<forall>team ok sent.
        (team, ok, sent) \<in> set (snd (handleSendWorkshopInvites toDataURL sendMail st)) \<longrightarrow>
        map (mail_to \<circ> fst) sent =
          (case members (snd team) of
             None \<Rightarrow> []
           | Some ms \<Rightarrow>
               map email (takeWhile (ticketGenerated toDataURL (snd team) (details st)) ms))) \<and>
     (\<forall>st0 snapshot.
        st = fetchTeams toLowerCase (searchTerm st0) (filterStatus st0) (Inr snapshot) st0 \<longrightarrow>
        map fst (snd (handleSendWorkshopInvites toDataURL sendMail st)) =
          filter (\<lambda>(i, team). matchesSearch toLowerCase (searchTerm st) team \<and>
                               matchesStatus (filterStatus st) team) snapshot \<and>
        (\<forall>team \<in> set snapshot.
           \<not> (matchesSearch toLowerCase (searchTerm st) (snd team) \<and>
              matchesStatus (filterStatus st) (snd team)) \<longrightarrow>
           team \<notin> fst ` set (snd (handleSendWorkshopInvites toDataURL sendMail st))))"
proof -
  let ?log = "snd (handleSendWorkshopInvites toDataURL sendMail st)"
  have l: "?log = snd (inviteTeams toDataURL sendMail (details st)
                         \<lparr>successCount = 0, failCount = 0\<rparr> (teams st))"
    using assms by (simp add: handleSendWorkshopInvites_filled)
  have t: "map fst ?log = teams st" unfolding l by (rule inviteTeams_teams)
  have b: "map (mail_to \<circ> fst) sent =
          (case members (snd team) of
             None \<Rightarrow> []
           | Some ms \<Rightarrow>
               map email (takeWhile (ticketGenerated toDataURL (snd team) (details st)) ms))"
    if e: "(team, ok, sent) \<in> set ?log" for team ok sent
  proof -
    from handleSendWorkshopInvites_entry [OF assms e]
    have s: "sent = snd (sendWorkshopInvite toDataURL sendMail (snd team) (details st))"
      by simp
    show ?thesis
    proof (cases "members (snd team)")
      case None
      with s show ?thesis by (simp add: sendWorkshopInvite_no_members)
    next
      case (Some ms)
      with s sendWorkshopInvite_exact [OF Some, of toDataURL sendMail "details st"]
      show ?thesis by simp
    qed
  qed
  have c: "map fst ?log =
          filter (\<lambda>(i, team). matchesSearch toLowerCase (searchTerm st) team \<and>
                               matchesStatus (filterStatus st) team) snapshot \<and>
        (\<forall>team \<in> set snapshot.
           \<not> (matchesSearch toLowerCase (searchTerm st) (snd team) \<and>
              matchesStatus (filterStatus st) (snd team)) \<longrightarrow>
           team \<notin> fst ` set ?log)"
    if f: "st = fetchTeams toLowerCase (searchTerm st0) (filterStatus st0) (Inr snapshot) st0"
    for st0 snapshot
  proof -
    let ?P = "\<lambda>(i, team). matchesSearch toLowerCase (searchTerm st) team \<and>
                            matchesStatus (filterStatus st) team"
    note r = fetchTeams_resolved [of toLowerCase "searchTerm st0" "filterStatus st0" snapshot st0]
    from f r have "searchTerm st = searchTerm st0" "filterStatus st = filterStatus st0"
      "teams st = teamsData toLowerCase (searchTerm st0) (filterStatus st0) snapshot"
      by simp_all
    then have "teams st = filter ?P snapshot" by (simp add: teamsData_filter)
    with t have m: "map fst ?log = filter ?P snapshot" by simp
    have "team \<notin> fst ` set ?log"
      if "\<not> (matchesSearch toLowerCase (searchTerm st) (snd team) \<and>
             matchesStatus (filterStatus st) (snd team))" for team
    proof
      assume "team \<in> fst ` set ?log"
      then have "team \<in> set (map fst ?log)" by simp
      with m have "?P team" by simp
      with that show False by (simp add: case_prod_beta)
    qed
    with m show ?thesis by blast
  qed
  from t b c show ?thesis by blast
qed

text \<open>
  The claim as stated fails when the list is not the one fetched under the current filter.
  The dashboard loads three teams under the filter \<^verbatim>\<open>all\<close>; the filter is then set to
  \<^verbatim>\<open>selected\<close>, and the fetch that this starts is rejected, so the list stays. The filter
  at dispatch time is \<^verbatim>\<open>selected\<close>, the third team is not selected, and the batch still
  sends to its member. The same list is held, and sent to, while that fetch is pending.
\<close>

theorem C10_counterexample:
  "filterStatus
     (fetchTeams
        (map (\<lambda>c. if 65 \<le> (of_char c :: nat) \<and> (of_char c :: nat) \<le> 90
                    then char_of (of_char c + 32 :: nat) else c))
        [] FilterSelected (Inl (FirebaseError ''unavailable''))
        (setFilterStatus FilterSelected
           (fetchTeams
              (map (\<lambda>c. if 65 \<le> (of_char c :: nat) \<and> (of_char c :: nat) \<le> 90
                          then char_of (of_char c + 32 :: nat) else c))
              [] FilterAll
              (Inr [(''u1'', \<lparr>team_teamName = Some ''Alpha'', team_registrationId = Some ''SS-A'',
                               members = Some [noMember\<lparr>email := Some ''asha@example.org''\<rparr>],
                               team_paymentStatus = Some ''paid'', phase2Selected = True\<rparr>),
                    (''u2'', \<lparr>team_teamName = Some ''Beta'', team_registrationId = Some ''SS-B'',
                               members = Some [noMember\<lparr>email := Some ''bala@example.org''\<rparr>],
                               team_paymentStatus = Some ''paid'', phase2Selected = True\<rparr>),
                    (''u3'', \<lparr>team_teamName = Some ''Gamma'', team_registrationId = Some ''SS-C'',
                               members = Some [noMember\<lparr>email := Some ''chitra@example.org''\<rparr>],
                               team_paymentStatus = Some ''paid'', phase2Selected = False\<rparr>)])
              \<lparr>teams = [], searchTerm = [], filterStatus = FilterAll,
               details = \<lparr>title = ''Pitching'', date = ''2025-04-05T10:00'',
                          venue = ''Main Hall''\<rparr>\<rparr>))) = FilterSelected \<and>
   \<not> matchesStatus FilterSelected
       \<lparr>team_teamName = Some ''Gamma'', team_registrationId = Some ''SS-C'',
        members = Some [noMember\<lparr>email := Some ''chitra@example.org''\<rparr>],
        team_paymentStatus = Some ''paid'', phase2Selected = False\<rparr> \<and>
   map (\<lambda>(team, ok, sent). (fst team, map (mail_to \<circ> fst) sent))
     (snd (handleSendWorkshopInvites
        (\<lambda>s. if length s \<le> 2953 then Inr s else Inl (Error ''too big for a QR code''))
        (\<lambda>m. True)
        (fetchTeams
           (map (\<lambda>c. if 65 \<le> (of_char c :: nat) \<and> (of_char c :: nat) \<le> 90
                       then char_of (of_char c + 32 :: nat) else c))
           [] FilterSelected (Inl (FirebaseError ''unavailable''))
           (setFilterStatus FilterSelected
              (fetchTeams
                 (map (\<lambda>c. if 65 \<le> (of_char c :: nat) \<and> (of_char c :: nat) \<le> 90
                             then char_of (of_char c + 32 :: nat) else c))
                 [] FilterAll
                 (Inr [(''u1'', \<lparr>team_teamName = Some ''Alpha'',
                                  team_registrationId = Some ''SS-A'',
                                  members = Some [noMember\<lparr>email := Some ''asha@example.org''\<rparr>],
                                  team_paymentStatus = Some ''paid'', phase2Selected = True\<rparr>),
                       (''u2'', \<lparr>team_teamName = Some ''Beta'',
                                  team_registrationId = Some ''SS-B'',
                                  members = Some [noMember\<lparr>email := Some ''bala@example.org''\<rparr>],
                                  team_paymentStatus = Some ''paid'', phase2Selected = True\<rparr>),
                       (''u3'', \<lparr>team_teamName = Some ''Gamma'',
                                  team_registrationId = Some ''SS-C'',
                                  members = Some [noMember\<lparr>email := Some ''chitra@example.org''\<rparr>],
                                  team_paymentStatus = Some ''paid'', phase2Selected = False\<rparr>)])
                 \<lparr>teams = [], searchTerm = [], filterStatus = FilterAll,
                  details = \<lparr>title = ''Pitching'', date = ''2025-04-05T10:00'',
                             venue = ''Main Hall''\<rparr>\<rparr>))))) =
     [(''u1'', [Some ''asha@example.org'']), (''u2'', [Some ''bala@example.org'']),
      (''u3'', [Some ''chitra@example.org''])]"
  by code_simp

text \<open>
  A search for "ALP" among the selected teams, fetched with success: of three teams, one
  passes both tests (the third matches the search but is not selected), and the batch
  sends to that team's member only.
\<close>

theorem C10_batch_follows_the_fetched_list_witness:
  "map (\<lambda>(team, ok, sent). (fst team, map (mail_to \<circ> fst) sent))
     (snd (handleSendWorkshopInvites
        (\<lambda>s. if length s \<le> 2953 then Inr s else Inl (Error ''too big for a QR code''))
        (\<lambda>m. True)
        (fetchTeams
           (map (\<lambda>c. if 65 \<le> (of_char c :: nat) \<and> (of_char c :: nat) \<le> 90
                       then char_of (of_char c + 32 :: nat) else c))
           ''ALP'' FilterSelected
           (Inr [(''u1'', \<lparr>team_teamName = Some ''Alpha'', team_registrationId = Some ''SS-A'',
                            members = Some [noMember\<lparr>email := Some ''asha@example.org''\<rparr>],
                            team_paymentStatus = Some ''paid'', phase2Selected = True\<rparr>),
                 (''u2'', \<lparr>team_teamName = Some ''Beta'', team_registrationId = Some ''SS-B'',
                            members = Some [noMember\<lparr>email := Some ''bala@example.org''\<rparr>],
                            team_paymentStatus = Some ''paid'', phase2Selected = True\<rparr>),
                 (''u3'', \<lparr>team_teamName = Some ''Alpine Labs'',
                            team_registrationId = Some ''SS-C'',
                            members = Some [noMember\<lparr>email := Some ''chitra@example.org''\<rparr>],
                            team_paymentStatus = Some ''paid'', phase2Selected = False\<rparr>)])
           (setFilterStatus FilterSelected
              (setSearchTerm ''ALP''
                 \<lparr>teams = [], searchTerm = [], filterStatus = FilterAll,
                  details = \<lparr>title = ''Pitching'', date = ''2025-04-05T10:00'',
                             venue = ''Main Hall''\<rparr>\<rparr>))))) =
   [(''u1'', [Some ''asha@example.org''])]"
proof -
  let ?lower = "map (\<lambda>c. if 65 \<le> (of_char c :: nat) \<and> (of_char c :: nat) \<le> 90
                       then char_of (of_char c + 32 :: nat) else c)"
  let ?enc = "\<lambda>s::string. if length s \<le> 2953 then Inr s
                          else (Inl (Error ''too big for a QR code'') :: failure + string)"
  let ?asha = "noMember\<lparr>email := Some ''asha@example.org''\<rparr>"
  let ?ta = "\<lparr>team_teamName = Some ''Alpha'', team_registrationId = Some ''SS-A'',
               members = Some [?asha], team_paymentStatus = Some ''paid'',
               phase2Selected = True\<rparr>"
  let ?snap = "[(''u1'', ?ta),
            (''u2'', \<lparr>team_teamName = Some ''Beta'', team_registrationId = Some ''SS-B'',
                      members = Some [noMember\<lparr>email := Some ''bala@example.org''\<rparr>],
                      team_paymentStatus = Some ''paid'', phase2Selected = True\<rparr>),
            (''u3'', \<lparr>team_teamName = Some ''Alpine Labs'', team_registrationId = Some ''SS-C'',
                      members = Some [noMember\<lparr>email := Some ''chitra@example.org''\<rparr>],
                      team_paymentStatus = Some ''paid'', phase2Selected = False\<rparr>)]"
  let ?wd = "\<lparr>title = ''Pitching'', date = ''2025-04-05T10:00'', venue = ''Main Hall''\<rparr>"
  let ?prev = "setFilterStatus FilterSelected
                (setSearchTerm ''ALP''
                   \<lparr>teams = [], searchTerm = [], filterStatus = FilterAll, details = ?wd\<rparr>)"
  let ?st = "fetchTeams ?lower ''ALP'' FilterSelected (Inr ?snap) ?prev"
  let ?log = "snd (handleSendWorkshopInvites ?enc (\<lambda>m. True) ?st)"
  have s0: "searchTerm ?prev = ''ALP''" "filterStatus ?prev = FilterSelected"
    by (simp_all add: setFilterStatus_def setSearchTerm_def)
  have s1: "details ?prev = ?wd"
    by (simp add: setFilterStatus_def setSearchTerm_def)
  have s: "searchTerm ?st = ''ALP''" "filterStatus ?st = FilterSelected" "details ?st = ?wd"
    by (simp_all only: fetchTeams_resolved s0 s1)
  have d: "title (details ?st) \<noteq> []" "date (details ?st) \<noteq> []" "venue (details ?st) \<noteq> []"
    by (simp_all add: s)
  have f: "?st = fetchTeams ?lower (searchTerm ?prev) (filterStatus ?prev) (Inr ?snap) ?prev"
    by (simp only: s0)
  have e: "filter (\<lambda>(i, team). matchesSearch ?lower ''ALP'' team \<and>
                            matchesStatus FilterSelected team) ?snap = [(''u1'', ?ta)]"
    by code_simp
  have g: "takeWhile (ticketGenerated ?enc ?ta ?wd) [?asha] = [?asha]" by code_simp
  note th = C10_batch_follows_the_fetched_list [OF d, of ?enc "\<lambda>m. True" ?lower]
  from th [THEN conjunct2, THEN conjunct2, rule_format, OF f, THEN conjunct1]
  have m: "map fst ?log = [(''u1'', ?ta)]" by (simp only: s e)
  then obtain ok sent where l: "?log = [((''u1'', ?ta), ok, sent)]"
    by (cases ?log) auto
  from th [THEN conjunct2, THEN conjunct1, rule_format, of "(''u1'', ?ta)" ok sent] l
  have "map (mail_to \<circ> fst) sent = map email (takeWhile (ticketGenerated ?enc ?ta ?wd) [?asha])"
    by (simp add: s)
  with g have "map (mail_to \<circ> fst) sent = [Some ''asha@example.org'']"
    by (simp add: noMember_def)
  with l show ?thesis by simp
qed

section \<open>Ticket payload: proofs\<close>

lemma hexValue_hexDigit: "n < 16 \<Longrightarrow> hexValue (hexDigit n) = Some n"
  by (auto simp: hexValue_def hexDigit_def Let_def)

lemma parseChars_plain:
  "c \<noteq> CHR 0x22 \<Longrightarrow> c \<noteq> CHR 0x5C \<Longrightarrow> \<not> (of_char c :: nat) < 32 \<Longrightarrow>
   parseChars (c # rest) = map_option (\<lambda>(s, r). (c # s, r)) (parseChars rest)"
  by simp

lemma parseChars_short:
  "unescape e = Some c \<Longrightarrow> e \<noteq> CHR ''u'' \<Longrightarrow>
   parseChars (CHR 0x5C # e # rest) = map_option (\<lambda>(s, r). (c # s, r)) (parseChars rest)"
  by simp

lemma parseChars_unicode:
  assumes "(of_char c :: nat) < 32"
  shows "parseChars (unicodeEscape c @ rest) = map_option (\<lambda>(s, r). (c # s, r)) (parseChars rest)"
proof -
  let ?n = "of_char c :: nat"
  from assms have d: "?n div 4096 mod 16 = 0" "?n div 256 mod 16 = 0" "?n div 16 mod 16 = ?n div 16"
    by simp_all
  have h: "hexValue (hexDigit 0) = Some 0" "hexValue (hexDigit (?n div 16)) = Some (?n div 16)"
    "hexValue (hexDigit (?n mod 16)) = Some (?n mod 16)"
    using assms by (simp_all add: hexValue_hexDigit)
  have v: "((0 * 16 + 0) * 16 + ?n div 16) * 16 + ?n mod 16 = ?n" by simp
  have lt: "?n < 128" using assms by simp
  have c: "char_of ?n = c" by simp
  show ?thesis
    unfolding unicodeEscape_def Let_def d
    by (simp add: h lt c del: of_char_of)
qed

lemma parseChars_quoteChar:
  "parseChars (quoteChar c @ rest) = map_option (\<lambda>(s, r). (c # s, r)) (parseChars rest)"
proof -
  consider "c = CHR 0x08" | "c = CHR 0x09" | "c = CHR 0x0A" | "c = CHR 0x0C" | "c = CHR 0x0D"
    | "c = CHR 0x22" | "c = CHR 0x5C"
    | "c \<noteq> CHR 0x08" "c \<noteq> CHR 0x09" "c \<noteq> CHR 0x0A" "c \<noteq> CHR 0x0C" "c \<noteq> CHR 0x0D"
      "c \<noteq> CHR 0x22" "c \<noteq> CHR 0x5C" "(of_char c :: nat) < 32"
    | "c \<noteq> CHR 0x08" "c \<noteq> CHR 0x09" "c \<noteq> CHR 0x0A" "c \<noteq> CHR 0x0C" "c \<noteq> CHR 0x0D"
      "c \<noteq> CHR 0x22" "c \<noteq> CHR 0x5C" "\<not> (of_char c :: nat) < 32"
    by blast
  then show ?thesis
  proof cases
    case 8
    then have "quoteChar c = unicodeEscape c" by (simp add: quoteChar_def)
    with 8 show ?thesis by (simp add: parseChars_unicode)
  next
    case 9
    then have "quoteChar c = [c]" by (simp add: quoteChar_def)
    with 9 show ?thesis by (simp add: parseChars_plain del: parseChars.simps)
  qed (simp_all add: quoteChar_def unescape_def)
qed

lemma parseChars_quoted:
  "parseChars (concat (map quoteChar s) @ CHR 0x22 # r) = Some (s, r)"
  by (induction s) (simp_all add: parseChars_quoteChar del: parseChars.simps, simp)

lemma parseQuoted_QuoteJSONString: "parseQuoted (QuoteJSONString s @ r) = Some (s, r)"
  by (simp add: parseQuoted_def QuoteJSONString_def parseChars_quoted del: parseChars.simps)

lemma parseMember_renderMember: "parseMember (renderMember kv @ r) = Some (kv, r)"
  by (simp add: parseMember_def renderMember_def parseQuoted_QuoteJSONString)

lemma renderMember_length: "2 \<le> length (renderMember kv)"
  by (simp add: renderMember_def QuoteJSONString_def)

lemma joinWith_length: "length ms \<le> length (joinWith sep (map renderMember ms))"
proof (induction ms rule: induct_list012)
  case (2 x)
  show ?case using renderMember_length [of x] by simp
next
  case (3 x y zs)
  then show ?case using renderMember_length [of x] by simp
qed simp

lemma parseMembers_joinWith:
  "ms \<noteq> [] \<Longrightarrow> length ms \<le> n \<Longrightarrow>
   parseMembers n (joinWith '','' (map renderMember ms) @ ''}'') = Some ms"
proof (induction ms arbitrary: n rule: induct_list012)
  case 1
  then show ?case by simp
next
  case (2 x)
  then obtain k where "n = Suc k" by (cases n) auto
  then show ?case by (simp add: parseMember_renderMember)
next
  case (3 x y zs)
  then obtain k where n: "n = Suc k" by (cases n) auto
  with 3 have "parseMembers k (joinWith '','' (map renderMember (y # zs)) @ ''}'') = Some (y # zs)"
    by simp
  with n show ?case
    using parseMember_renderMember
      [of x "'','' @ joinWith '','' (map renderMember (y # zs)) @ ''}''"]
    by simp
qed

lemma parseObject_members:
  "parseObject (''{'' @ joinWith '','' (map renderMember ms) @ ''}'') = Some ms"
proof (cases "ms = []")
  case True
  then show ?thesis by (simp add: parseObject_def)
next
  case False
  let ?r = "joinWith '','' (map renderMember ms) @ ''}''"
  from False have "1 \<le> length (joinWith '','' (map renderMember ms))"
    using joinWith_length [of ms "'',''"] by (cases ms) auto
  then have ne: "?r \<noteq> ''}''" by (cases "joinWith '','' (map renderMember ms)") auto
  have "length ms \<le> length ?r" using joinWith_length [of ms "'',''"] by simp
  with False have "parseMembers (length ?r) ?r = Some ms" by (rule parseMembers_joinWith)
  with ne show ?thesis by (simp add: parseObject_def)
qed

lemma stringifyObject_render:
  "stringifyObject props =
     ''{'' @ joinWith '',''
       (map renderMember (List.map_filter (\<lambda>(k, v). map_option (Pair k) v) props)) @ ''}''"
proof -
  have "List.map_filter
          (\<lambda>(k, v). case v of None \<Rightarrow> None
             | Some x \<Rightarrow> Some (QuoteJSONString k @ '':'' @ QuoteJSONString x)) props =
        map renderMember (List.map_filter (\<lambda>(k, v). map_option (Pair k) v) props)"
    by (induction props) (auto simp: List.map_filter_def renderMember_def split: option.splits)
  then show ?thesis by (simp add: stringifyObject_def)
qed

lemma parseObject_stringifyObject:
  "parseObject (stringifyObject props) =
     Some (List.map_filter (\<lambda>(k, v). map_option (Pair k) v) props)"
  unfolding stringifyObject_render by (rule parseObject_members)

lemma parseObject_qrData:
  "parseObject (qrData d) =
     Some (List.map_filter (\<lambda>(k, v). map_option (Pair k) v)
             [(''regId'', ticket_registrationId d), (''name'', name (member d)),
              (''team'', ticket_teamName d)])"
  unfolding qrData_def by (rule parseObject_stringifyObject)

lemma payload_lookup:
  "map_of (List.map_filter (\<lambda>(k, v). map_option (Pair k) v)
             [(''regId'', a), (''name'', b), (''team'', c)]) ''regId'' = a \<and>
   map_of (List.map_filter (\<lambda>(k, v). map_option (Pair k) v)
             [(''regId'', a), (''name'', b), (''team'', c)]) ''name'' = b \<and>
   map_of (List.map_filter (\<lambda>(k, v). map_option (Pair k) v)
             [(''regId'', a), (''name'', b), (''team'', c)]) ''team'' = c"
  by (cases a; cases b; cases c) (simp_all add: List.map_filter_def)

text \<open>
  Claim C8. For every ticket, reading the payload that \<^verbatim>\<open>generateETicket\<close> puts into the
  scannable code gives back exactly the registration id, the member's name and the team
  name the payload was generated from (a value the ticket data lacks is left out of the
  payload and read back as absent).
\<close>

theorem C8_ticket_roundtrip:
  "decodeTicket (qrData d) =
     Some (ticket_registrationId d, name (member d), ticket_teamName d)"
proof -
  let ?ms = "List.map_filter (\<lambda>(k, v). map_option (Pair k) v)
               [(''regId'', ticket_registrationId d), (''name'', name (member d)),
                (''team'', ticket_teamName d)]"
  have "decodeTicket (qrData d) =
          Some (map_of ?ms ''regId'', map_of ?ms ''name'', map_of ?ms ''team'')"
    by (simp only: decodeTicket_def parseObject_qrData option.case)
  also have "\<dots> = Some (ticket_registrationId d, name (member d), ticket_teamName d)"
    using payload_lookup [of "ticket_registrationId d" "name (member d)" "ticket_teamName d"]
    by simp
  finally show ?thesis .
qed

text \<open>So the payload determines the three values: distinct tickets have distinct codes.\<close>

lemma qrData_injective:
  assumes "qrData d = qrData d'"
  shows "ticket_registrationId d = ticket_registrationId d' \<and>
         name (member d) = name (member d') \<and> ticket_teamName d = ticket_teamName d'"
proof -
  let ?f = "\<lambda>a b c. List.map_filter (\<lambda>(k, v). map_option (Pair k) v)
               [(''regId'', a), (''name'', b), (''team'', c)]"
  from assms have "parseObject (qrData d) = parseObject (qrData d')" by simp
  then have e: "?f (ticket_registrationId d) (name (member d)) (ticket_teamName d) =
                ?f (ticket_registrationId d') (name (member d')) (ticket_teamName d')"
    by (simp only: parseObject_qrData option.inject)
  have "ticket_registrationId d = map_of (?f (ticket_registrationId d) (name (member d))
          (ticket_teamName d)) ''regId''"
    using payload_lookup [of "ticket_registrationId d" "name (member d)" "ticket_teamName d"]
    by simp
  also have "\<dots> = ticket_registrationId d'"
    unfolding e
    using payload_lookup [of "ticket_registrationId d'" "name (member d')" "ticket_teamName d'"]
    by simp
  finally have r: "ticket_registrationId d = ticket_registrationId d'" .
  have "name (member d) = map_of (?f (ticket_registrationId d) (name (member d))
          (ticket_teamName d)) ''name''"
    using payload_lookup [of "ticket_registrationId d" "name (member d)" "ticket_teamName d"]
    by simp
  also have "\<dots> = name (member d')"
    unfolding e
    using payload_lookup [of "ticket_registrationId d'" "name (member d')" "ticket_teamName d'"]
    by simp
  finally have n: "name (member d) = name (member d')" .
  have "ticket_teamName d = map_of (?f (ticket_registrationId d) (name (member d))
          (ticket_teamName d)) ''team''"
    using payload_lookup [of "ticket_registrationId d" "name (member d)" "ticket_teamName d"]
    by simp
  also have "\<dots> = ticket_teamName d'"
    unfolding e
    using payload_lookup [of "ticket_registrationId d'" "name (member d')" "ticket_teamName d'"]
    by simp
  finally have t: "ticket_teamName d = ticket_teamName d'" .
  from r n t show ?thesis by simp
qed

lemma decodeTicket_example:
  "decodeTicket
     (qrData \<lparr>ticket_teamName = Some ''Alpha'', ticket_registrationId = Some ''SS-A'',
              member = noMember\<lparr>name := Some [CHR ''A'', CHR 0x22, CHR 0x5C, CHR 0x0A, CHR 0x01]\<rparr>,
              eventDetails = \<lparr>event_date = ''2025-04-05T10:00'', event_venue = ''Main Hall'',
                              workshopTitle = Some ''Pitching''\<rparr>\<rparr>) =
   Some (Some ''SS-A'', Some [CHR ''A'', CHR 0x22, CHR 0x5C, CHR 0x0A, CHR 0x01], Some ''Alpha'')"
  by code_simp

end
